theory Spec2Isabelle
  imports Main
begin

section \<open>JSON values and their text\<close>

text \<open>
  The cart is kept in \<^verbatim>\<open>localStorage\<close> as the text that \<^verbatim>\<open>JSON.stringify\<close> produces and
  is read back with \<^verbatim>\<open>JSON.parse\<close>. Both are functions of the JavaScript platform; they
  are modelled here on the values the storefront stores: null, booleans, integer-valued
  numbers, strings of 8-bit characters, arrays and objects (an object is the list of its
  members in the order of the text). Numbers with a fraction or an exponent and
  \<^verbatim>\<open>\u\<close> escapes above \<^verbatim>\<open>00ff\<close> lie outside this fragment and are read as a
  syntax error; IEEE rounding is not modelled, integers are exact.
\<close>

datatype json = JNull | JBool bool | JNum int | JStr string
  | JArr "json list" | JObj "(string \<times> json) list"

definition digit_char :: "nat \<Rightarrow> char" where
  "digit_char d = char_of (48 + d)"

function show_nat :: "nat \<Rightarrow> string" where
  "show_nat n = (if n < 10 then [digit_char n] else show_nat (n div 10) @ [digit_char (n mod 10)])"
  by pat_completeness auto
termination
  by (relation "measure id") auto

declare show_nat.simps [simp del]

definition hex_char :: "nat \<Rightarrow> char" where
  "hex_char d = (if d < 10 then char_of (48 + d) else char_of (87 + d))"

text \<open>
  \<^verbatim>\<open>JSON.stringify\<close> escapes the double quote (0x22), the backslash (0x5C) and the control
  characters: the five short escapes, and \<^verbatim>\<open>\u00xx\<close> in lower-case hexadecimal otherwise.
\<close>

definition escape_char :: "char \<Rightarrow> string" where
  "escape_char c =
     (if c = CHR 0x22 then [CHR 0x5C, CHR 0x22]
      else if c = CHR 0x5C then [CHR 0x5C, CHR 0x5C]
      else if c = CHR 0x08 then [CHR 0x5C, CHR ''b'']
      else if c = CHR 0x09 then [CHR 0x5C, CHR ''t'']
      else if c = CHR 0x0A then [CHR 0x5C, CHR ''n'']
      else if c = CHR 0x0C then [CHR 0x5C, CHR ''f'']
      else if c = CHR 0x0D then [CHR 0x5C, CHR ''r'']
      else if (of_char c :: nat) < 32
        then [CHR 0x5C, CHR ''u'', CHR ''0'', CHR ''0'',
              hex_char (of_char c div 16), hex_char (of_char c mod 16)]
      else [c])"

definition quote :: "string \<Rightarrow> string" where
  "quote s = CHR 0x22 # concat (map escape_char s) @ [CHR 0x22]"

fun commas :: "string list \<Rightarrow> string" where
  "commas [] = []"
| "commas [x] = x"
| "commas (x # y # ys) = x @ CHR '','' # commas (y # ys)"

fun JSON_stringify :: "json \<Rightarrow> string" where
  "JSON_stringify JNull = ''null''"
| "JSON_stringify (JBool b) = (if b then ''true'' else ''false'')"
| "JSON_stringify (JNum n) = (if n < 0 then CHR ''-'' # show_nat (nat (- n)) else show_nat (nat n))"
| "JSON_stringify (JStr s) = quote s"
| "JSON_stringify (JArr xs) = CHR ''['' # commas (map JSON_stringify xs) @ '']''"
| "JSON_stringify (JObj kvs) =
     CHR ''{'' # commas (map (\<lambda>kv. quote (fst kv) @ CHR '':'' # JSON_stringify (snd kv)) kvs) @ ''}''"

definition is_ws :: "char \<Rightarrow> bool" where
  "is_ws c \<longleftrightarrow> c = CHR 0x20 \<or> c = CHR 0x09 \<or> c = CHR 0x0A \<or> c = CHR 0x0D"

definition skip_ws :: "string \<Rightarrow> string" where
  "skip_ws = dropWhile is_ws"

definition is_digit :: "char \<Rightarrow> bool" where
  "is_digit c \<longleftrightarrow> 48 \<le> (of_char c :: nat) \<and> (of_char c :: nat) \<le> 57"

definition digit_val :: "char \<Rightarrow> nat" where
  "digit_val c = of_char c - 48"

definition nat_of_digits :: "string \<Rightarrow> nat" where
  "nat_of_digits ds = foldl (\<lambda>a c. 10 * a + digit_val c) 0 ds"

definition hex_val :: "char \<Rightarrow> nat option" where
  "hex_val c =
     (let n = of_char c :: nat in
      if 48 \<le> n \<and> n \<le> 57 then Some (n - 48)
      else if 97 \<le> n \<and> n \<le> 102 then Some (n - 87)
      else if 65 \<le> n \<and> n \<le> 70 then Some (n - 55)
      else None)"

definition unescape :: "char \<Rightarrow> char option" where
  "unescape e =
     (if e = CHR 0x22 then Some (CHR 0x22)
      else if e = CHR 0x5C then Some (CHR 0x5C)
      else if e = CHR ''/'' then Some (CHR ''/'')
      else if e = CHR ''b'' then Some (CHR 0x08)
      else if e = CHR ''f'' then Some (CHR 0x0C)
      else if e = CHR ''n'' then Some (CHR 0x0A)
      else if e = CHR ''r'' then Some (CHR 0x0D)
      else if e = CHR ''t'' then Some (CHR 0x09)
      else None)"

definition cons_result :: "'a \<Rightarrow> ('a list \<times> string) option \<Rightarrow> ('a list \<times> string) option" where
  "cons_result x r = (case r of None \<Rightarrow> None | Some (xs, rest) \<Rightarrow> Some (x # xs, rest))"

text \<open>The characters of a string literal after its opening quote, up to the closing one.\<close>

fun parse_chars :: "string \<Rightarrow> (string \<times> string) option" where
  "parse_chars [] = None"
| "parse_chars (c # r) =
     (if c = CHR 0x22 then Some ([], r)
      else if c = CHR 0x5C then
        (case r of
           [] \<Rightarrow> None
         | e # r' \<Rightarrow>
             if e = CHR ''u'' then
               (case r' of
                  h1 # h2 # h3 # h4 # r'' \<Rightarrow>
                    (case (hex_val h1, hex_val h2, hex_val h3, hex_val h4) of
                       (Some a, Some b, Some c', Some d) \<Rightarrow>
                         if a = 0 \<and> b = 0 then cons_result (char_of (16 * c' + d)) (parse_chars r'')
                         else None
                     | _ \<Rightarrow> None)
                | _ \<Rightarrow> None)
             else
               (case unescape e of
                  None \<Rightarrow> None
                | Some x \<Rightarrow> cons_result x (parse_chars r')))
      else if (of_char c :: nat) < 32 then None
      else cons_result c (parse_chars r))"

definition parse_number :: "string \<Rightarrow> (json \<times> string) option" where
  "parse_number s =
     (let neg = (case s of [] \<Rightarrow> False | c # _ \<Rightarrow> c = CHR ''-'');
          s1 = (if neg then tl s else s);
          ds = takeWhile is_digit s1;
          r = dropWhile is_digit s1
      in if ds = [] \<or> (hd ds = CHR ''0'' \<and> tl ds \<noteq> []) then None
         else Some (JNum (if neg then - int (nat_of_digits ds) else int (nat_of_digits ds)), r))"

definition strip :: "string \<Rightarrow> string \<Rightarrow> string option" where
  "strip p s = (if take (length p) s = p then Some (drop (length p) s) else None)"

text \<open>
  A recursive-descent reader. The first argument bounds the nesting and the number of
  elements still to be read; \<open>JSON_parse\<close> starts it at the length of the text. Each
  level and each element costs a character, and every text that \<open>JSON_stringify\<close> writes
  is read back within that bound (lemma \<open>JSON_roundtrip\<close>).
\<close>

fun parse_value :: "nat \<Rightarrow> string \<Rightarrow> (json \<times> string) option"
  and parse_elements :: "nat \<Rightarrow> string \<Rightarrow> (json list \<times> string) option"
  and parse_members :: "nat \<Rightarrow> string \<Rightarrow> ((string \<times> json) list \<times> string) option"
where
  "parse_value 0 s = None"
| "parse_value (Suc n) s =
     (case skip_ws s of
        [] \<Rightarrow> None
      | c # r \<Rightarrow>
          if c = CHR ''['' then
            (case skip_ws r of
               [] \<Rightarrow> None
             | d # r' \<Rightarrow>
                 if d = CHR '']'' then Some (JArr [], r')
                 else (case parse_elements n r of
                         None \<Rightarrow> None
                       | Some (xs, rest) \<Rightarrow> Some (JArr xs, rest)))
          else if c = CHR ''{'' then
            (case skip_ws r of
               [] \<Rightarrow> None
             | d # r' \<Rightarrow>
                 if d = CHR ''}'' then Some (JObj [], r')
                 else (case parse_members n r of
                         None \<Rightarrow> None
                       | Some (kvs, rest) \<Rightarrow> Some (JObj kvs, rest)))
          else if c = CHR 0x22 then
            (case parse_chars r of
               None \<Rightarrow> None
             | Some (str, rest) \<Rightarrow> Some (JStr str, rest))
          else if c = CHR ''n'' then
            (case strip ''null'' (c # r) of None \<Rightarrow> None | Some rest \<Rightarrow> Some (JNull, rest))
          else if c = CHR ''t'' then
            (case strip ''true'' (c # r) of None \<Rightarrow> None | Some rest \<Rightarrow> Some (JBool True, rest))
          else if c = CHR ''f'' then
            (case strip ''false'' (c # r) of None \<Rightarrow> None | Some rest \<Rightarrow> Some (JBool False, rest))
          else parse_number (c # r))"
| "parse_elements 0 s = None"
| "parse_elements (Suc n) s =
     (case parse_value n s of
        None \<Rightarrow> None
      | Some (v, r) \<Rightarrow>
          (case skip_ws r of
             [] \<Rightarrow> None
           | c # r' \<Rightarrow>
               if c = CHR '','' then cons_result v (parse_elements n r')
               else if c = CHR '']'' then Some ([v], r')
               else None))"
| "parse_members 0 s = None"
| "parse_members (Suc n) s =
     (case skip_ws s of
        [] \<Rightarrow> None
      | q # r \<Rightarrow>
          if q = CHR 0x22 then
            (case parse_chars r of
               None \<Rightarrow> None
             | Some (k, r1) \<Rightarrow>
                 (case skip_ws r1 of
                    [] \<Rightarrow> None
                  | c # r2 \<Rightarrow>
                      if c = CHR '':'' then
                        (case parse_value n r2 of
                           None \<Rightarrow> None
                         | Some (v, r3) \<Rightarrow>
                             (case skip_ws r3 of
                                [] \<Rightarrow> None
                              | e # r4 \<Rightarrow>
                                  if e = CHR '','' then cons_result (k, v) (parse_members n r4)
                                  else if e = CHR ''}'' then Some ([(k, v)], r4)
                                  else None))
                      else None))
          else None)"

text \<open>\<^verbatim>\<open>JSON.parse\<close>: \<open>None\<close> stands for the SyntaxError it throws.\<close>

definition JSON_parse :: "string \<Rightarrow> json option" where
  "JSON_parse s =
     (case parse_value (length s) s of
        None \<Rightarrow> None
      | Some (v, rest) \<Rightarrow> if skip_ws rest = [] then Some v else None)"

text \<open>Property access \<^verbatim>\<open>obj.key\<close> on a parsed object: the last member of that name wins.\<close>

definition get_prop :: "string \<Rightarrow> (string \<times> json) list \<Rightarrow> json option" where
  "get_prop k kvs = map_of (rev kvs) k"


section \<open>The browser: storage, console, network\<close>

text \<open>
  The page runs on one thread; an \<^verbatim>\<open>async\<close> function is modelled run to completion,
  its awaited calls in sequence. Every effect is explicit: \<open>localStorage\<close> is the
  key-value store, \<open>document\<close> the page, \<open>journal\<close> records in order each storage
  write, each console message and each call of \<^verbatim>\<open>updateCartUI\<close>, \<open>network\<close> the requests
  sent.
\<close>

datatype js_error = Error string | TypeError | SyntaxError

datatype console_level = LOG | WARN | ERROR

text \<open>
  A product in the shape \<^verbatim>\<open>formatProductForFrontend\<close> gives it, with the fields the cart
  reads, and a cart line \<^verbatim>\<open>{ ...product, quantity }\<close>. The further display fields of a
  product (category, material, stock, ...) are copied along by the spread and read by no
  cart operation. Identifiers are strings, as the page passes them; prices and quantities
  are the integer-valued numbers of JavaScript, a price being an amount in whole units.
\<close>

record product =
  id' :: string
  name :: string
  price :: int
  image' :: string

record line = product +
  quantity :: int

text \<open>
  The part of the page that \<^verbatim>\<open>updateCartUI\<close> writes: the \<^verbatim>\<open>data-count\<close> attribute of the
  cart buttons, and the cart panel, that is the elements \<^verbatim>\<open>#cartItems\<close>, \<^verbatim>\<open>#cartTotal\<close>,
  \<^verbatim>\<open>.cart-empty\<close> and \<^verbatim>\<open>.cart-checkout\<close>, which a page has or has not
  (\<open>cart_panel\<close>). The markup written into \<^verbatim>\<open>#cartItems\<close> shows each line with its name,
  unit price, quantity and subtotal; it is kept as the list of the lines rendered, and the
  formatted total as its amount. An inline \<^verbatim>\<open>style.display\<close> is unset until the script
  sets it.
\<close>

datatype display = display_unset | display_none | display_block

record dom =
  cart_panel :: bool
  data_count :: int
  cartItems_display :: display
  cartItems_innerHTML :: "line list"
  cartEmpty_display :: display
  cartCheckout_disabled :: bool
  cartTotal_textContent :: int

datatype effect =
    Console console_level string
  | StorageSet string string
  | StorageRemove string
  | Rendered dom

record request =
  url :: string
  http_method :: string
  authorization :: "string option"
  body :: "string option"

record imagen =
  ruta :: string
  es_principal :: bool

record apiProduct =
  api_id :: string
  nombre :: string
  precio :: int
  imagenes :: "imagen list"
  api_image :: "string option"

text \<open>
  The JSON body of a reply, \<^verbatim>\<open>{ success, message, data: { ... } }\<close>; a field that the
  reply does not carry is \<open>None\<close> (\<^verbatim>\<open>undefined\<close> in the source).
\<close>

record payload =
  data_user :: "json option"
  data_accessToken :: "string option"
  data_refreshToken :: "string option"
  data_product :: "apiProduct option"

record api_body =
  success :: bool
  message :: "string option"
  data :: "payload option"

text \<open>
  What \<^verbatim>\<open>fetch\<close> settles to: a rejection, or a response with its status, status text
  and body (\<open>None\<close> when the body is not JSON, so that \<^verbatim>\<open>response.json()\<close> rejects).
\<close>

datatype fetch_result = NetworkFailure | Response nat string "api_body option"

record world =
  localStorage :: "string \<Rightarrow> string option"
  PRODUCTS :: "product list"
  items :: "line list"
  document :: dom
  journal :: "effect list"
  network :: "request list"

text \<open>
  The environment of the page: whether \<^verbatim>\<open>window.productService\<close> is loaded, and the
  backend, which answers a request knowing the requests it has received before.
\<close>

record env =
  productService :: bool
  server :: "request list \<Rightarrow> request \<Rightarrow> fetch_result"

record request_options =
  opt_method :: "string option"
  opt_body :: "string option"

definition no_options :: request_options where
  "no_options = \<lparr>opt_method = None, opt_body = None\<rparr>"

definition API_BASE_URL :: string where
  "API_BASE_URL = ''http://localhost:3000/api''"

definition truthy :: "string option \<Rightarrow> bool" where
  "truthy v = (case v of None \<Rightarrow> False | Some s \<Rightarrow> s \<noteq> [])"

definition ok :: "nat \<Rightarrow> bool" where
  "ok status \<longleftrightarrow> 200 \<le> status \<and> status \<le> 299"

definition console :: "console_level \<Rightarrow> string \<Rightarrow> world \<Rightarrow> world" where
  "console lv msg w = w\<lparr>journal := journal w @ [Console lv msg]\<rparr>"

definition localStorage_setItem :: "string \<Rightarrow> string \<Rightarrow> world \<Rightarrow> world" where
  "localStorage_setItem k v w =
     w\<lparr>localStorage := (localStorage w)(k \<mapsto> v), journal := journal w @ [StorageSet k v]\<rparr>"

definition localStorage_removeItem :: "string \<Rightarrow> world \<Rightarrow> world" where
  "localStorage_removeItem k w =
     w\<lparr>localStorage := (localStorage w)(k := None), journal := journal w @ [StorageRemove k]\<rparr>"

definition fetch :: "env \<Rightarrow> request \<Rightarrow> world \<Rightarrow> fetch_result \<times> world" where
  "fetch e req w = (server e (network w) req, w\<lparr>network := network w @ [req]\<rparr>)"

text \<open>
  The request both \<^verbatim>\<open>apiRequest\<close> functions build: the bearer header is attached when
  the stored token is truthy, the options override the method and the body.
\<close>

definition make_config :: "string \<Rightarrow> request_options \<Rightarrow> string option \<Rightarrow> request" where
  "make_config endpoint options token =
     \<lparr>url = API_BASE_URL @ endpoint,
      http_method = (case opt_method options of None \<Rightarrow> ''GET'' | Some m \<Rightarrow> m),
      authorization = (if truthy token then Some (''Bearer '' @ the token) else None),
      body = opt_body options\<rparr>"

text \<open>\<^verbatim>\<open>data.message || fallback\<close>\<close>

definition message_or :: "api_body \<Rightarrow> string \<Rightarrow> string" where
  "message_or b fallback = (if truthy (message b) then the (message b) else fallback)"

section \<open>services/productService.js\<close>

text \<open>
  \<^verbatim>\<open>apiRequest\<close> of the product service: logs, fetches, throws on a status that is not
  ok (the message taken from the body when it has one), and on every throw logs twice and
  rethrows.
\<close>

definition productService_caught :: "string \<Rightarrow> world \<Rightarrow> world" where
  "productService_caught endpoint w =
     console ERROR ''Verifica que el servidor backend este corriendo en http://localhost:3000''
       (console ERROR (''Error en API request a '' @ endpoint) w)"

definition productService_apiRequest ::
  "env \<Rightarrow> string \<Rightarrow> request_options \<Rightarrow> world \<Rightarrow> (js_error + api_body) \<times> world" where
  "productService_apiRequest e endpoint options w =
     (let token = localStorage w ''accessToken'';
          config = make_config endpoint options token;
          w1 = console LOG (''Haciendo peticion a: '' @ API_BASE_URL @ endpoint) w;
          (response, w2) = fetch e config w1
      in case response of
           NetworkFailure \<Rightarrow> (Inl TypeError, productService_caught endpoint w2)
         | Response status statusText rbody \<Rightarrow>
             if \<not> ok status then
               (let w3 = console ERROR (''Error HTTP: '' @ show_nat status @ '' '' @ statusText) w2;
                    fallback = ''Error '' @ show_nat status @ '': '' @ statusText;
                    msg = (case rbody of None \<Rightarrow> fallback | Some b \<Rightarrow> message_or b fallback)
                in (Inl (Error msg), productService_caught endpoint w3))
             else
               (case rbody of
                  None \<Rightarrow> (Inl SyntaxError, productService_caught endpoint w2)
                | Some b \<Rightarrow> (Inr b, console LOG (''Respuesta recibida de '' @ endpoint) w2)))"

text \<open>The result object \<^verbatim>\<open>{ success, product }\<close> of the service's \<^verbatim>\<open>getProductById\<close>.\<close>

record product_result =
  result_success :: bool
  result_product :: "apiProduct option"

definition productService_getProductById :: "env \<Rightarrow> string \<Rightarrow> world \<Rightarrow> product_result \<times> world" where
  "productService_getProductById e i w =
     (let failed = \<lparr>result_success = False, result_product = None\<rparr>;
          (r, w1) = productService_apiRequest e (''/products/'' @ i) no_options w
      in case r of
           Inl err \<Rightarrow> (failed, console ERROR ''Error al obtener producto:'' w1)
         | Inr response \<Rightarrow>
             if success response then
               (case data response of
                  None \<Rightarrow> (failed, console ERROR ''Error al obtener producto:'' w1)
                | Some d \<Rightarrow> (\<lparr>result_success = True, result_product = data_product d\<rparr>, w1))
             else (failed, console ERROR ''Error al obtener producto:'' w1))"

definition getMainImage :: "apiProduct \<Rightarrow> string" where
  "getMainImage p =
     (case imagenes p of
        [] \<Rightarrow> (if truthy (api_image p) then the (api_image p) else ''assets/placeholder.jpg'')
      | first # _ \<Rightarrow>
          (case find es_principal (imagenes p) of
             Some mainImage \<Rightarrow> ruta mainImage
           | None \<Rightarrow> ruta first))"

definition formatProductForFrontend :: "apiProduct \<Rightarrow> product" where
  "formatProductForFrontend apiP =
     \<lparr>id' = api_id apiP, name = nombre apiP, price = precio apiP, image' = getMainImage apiP\<rparr>"

section \<open>main.js: the catalog cache and the cart\<close>

text \<open>
  \<^verbatim>\<open>getProductById\<close>: the cached product if \<open>PRODUCTS\<close> has one, otherwise the
  service's answer when the service is loaded and reports a product, otherwise
  \<^verbatim>\<open>null\<close>. The service catches its own faults, so the \<^verbatim>\<open>catch\<close> of this function has
  nothing to catch on these data.
\<close>

definition getProductById :: "env \<Rightarrow> string \<Rightarrow> world \<Rightarrow> product option \<times> world" where
  "getProductById e i w =
     (case find (\<lambda>p. id' p = i) (PRODUCTS w) of
        Some cachedProduct \<Rightarrow> (Some cachedProduct, w)
      | None \<Rightarrow>
          if productService e then
            (let (result, w1) = productService_getProductById e i w
             in if result_success result then
                  (case result_product result of
                     Some apiP \<Rightarrow> (Some (formatProductForFrontend apiP), w1)
                   | None \<Rightarrow> (None, w1))
                else (None, w1))
          else (None, w))"

definition line_to_json :: "line \<Rightarrow> json" where
  "line_to_json l =
     JObj [(''id'', JStr (id' l)), (''name'', JStr (name l)), (''price'', JNum (price l)),
           (''image'', JStr (image' l)), (''quantity'', JNum (quantity l))]"

definition as_string :: "json option \<Rightarrow> string option" where
  "as_string v = (case v of Some (JStr s) \<Rightarrow> Some s | _ \<Rightarrow> None)"

definition as_number :: "json option \<Rightarrow> int option" where
  "as_number v = (case v of Some (JNum n) \<Rightarrow> Some n | _ \<Rightarrow> None)"

text \<open>The parsed value read as a cart line, when it is one.\<close>

definition line_of_json :: "json \<Rightarrow> line option" where
  "line_of_json v =
     (case v of
        JObj kvs \<Rightarrow>
          (case (as_string (get_prop ''id'' kvs), as_string (get_prop ''name'' kvs),
                 as_number (get_prop ''price'' kvs), as_string (get_prop ''image'' kvs),
                 as_number (get_prop ''quantity'' kvs)) of
             (Some i, Some n, Some p, Some im, Some q) \<Rightarrow>
               Some \<lparr>id' = i, name = n, price = p, image' = im, quantity = q\<rparr>
           | _ \<Rightarrow> None)
      | _ \<Rightarrow> None)"

definition lines_of_json :: "json \<Rightarrow> line list option" where
  "lines_of_json v = (case v of JArr vs \<Rightarrow> those (map line_of_json vs) | _ \<Rightarrow> None)"

text \<open>
  \<^verbatim>\<open>loadFromStorage\<close>: \<^verbatim>\<open>JSON.parse(localStorage.getItem('cart') || '[]')\<close>, and the empty
  array when the parse throws. The result is whatever value the text denotes.
\<close>

definition loadFromStorage :: "world \<Rightarrow> json" where
  "loadFromStorage w =
     (case JSON_parse (if truthy (localStorage w ''cart'') then the (localStorage w ''cart'') else ''[]'') of
        Some v \<Rightarrow> v
      | None \<Rightarrow> JArr [])"

definition saveToStorage :: "world \<Rightarrow> world" where
  "saveToStorage w = localStorage_setItem ''cart'' (JSON_stringify (JArr (map line_to_json (items w)))) w"

definition getTotal :: "world \<Rightarrow> int" where
  "getTotal w = foldl (\<lambda>total item. total + price item * quantity item) 0 (items w)"

definition getItemCount :: "world \<Rightarrow> int" where
  "getItemCount w = foldl (\<lambda>total item. total + quantity item) 0 (items w)"

text \<open>
  \<^verbatim>\<open>updateCartUI\<close>: the count goes on every cart button. When the page has the cart
  panel: for an empty cart the list is hidden, the empty notice shown and the checkout
  button disabled, and nothing else is written; otherwise the list is shown and rewritten
  from the lines, the notice hidden, the button enabled and the total rewritten. The
  journal keeps the page as each call leaves it.
\<close>

definition updateCartUI :: "world \<Rightarrow> world" where
  "updateCartUI w =
     (let count = getItemCount w;
          d1 = (document w)\<lparr>data_count := count\<rparr>;
          d2 = (if cart_panel d1 then
                  (if items w = [] then
                     d1\<lparr>cartItems_display := display_none,
                        cartEmpty_display := display_block,
                        cartCheckout_disabled := True\<rparr>
                   else
                     d1\<lparr>cartItems_display := display_block,
                        cartEmpty_display := display_none,
                        cartCheckout_disabled := False,
                        cartItems_innerHTML := items w,
                        cartTotal_textContent := getTotal w\<rparr>)
                else d1)
      in w\<lparr>document := d2, journal := journal w @ [Rendered d2]\<rparr>)"

text \<open>
  \<^verbatim>\<open>items.find(...)\<close> followed by an assignment to a field of the object found changes
  the first matching line in place.
\<close>

fun update_first :: "('a \<Rightarrow> bool) \<Rightarrow> ('a \<Rightarrow> 'a) \<Rightarrow> 'a list \<Rightarrow> 'a list" where
  "update_first P f [] = []"
| "update_first P f (x # xs) = (if P x then f x # xs else x # update_first P f xs)"

text \<open>Lines 121 to 126 of \<^verbatim>\<open>addItem\<close>: the cache first, then \<^verbatim>\<open>getProductById\<close>.\<close>

definition resolveProduct :: "env \<Rightarrow> string \<Rightarrow> world \<Rightarrow> product option \<times> world" where
  "resolveProduct e productId w =
     (case find (\<lambda>p. id' p = productId) (PRODUCTS w) of
        Some p \<Rightarrow> (Some p, w)
      | None \<Rightarrow> getProductById e productId w)"

definition addItem :: "env \<Rightarrow> string \<Rightarrow> int \<Rightarrow> world \<Rightarrow> world" where
  "addItem e productId qty w =
     (let (found, w1) = resolveProduct e productId w
      in case found of
           None \<Rightarrow> console WARN (''Producto no encontrado: '' @ productId) w1
         | Some p \<Rightarrow>
             (let w2 =
                (case find (\<lambda>item. id' item = productId) (items w1) of
                   Some existingItem \<Rightarrow>
                     w1\<lparr>items := update_first (\<lambda>item. id' item = productId)
                                    (\<lambda>item. item\<lparr>quantity := quantity item + qty\<rparr>) (items w1)\<rparr>
                 | None \<Rightarrow>
                     w1\<lparr>items := items w1 @
                        [\<lparr>id' = id' p, name = name p, price = price p, image' = image' p,
                          quantity = qty\<rparr>]\<rparr>)
              in updateCartUI (saveToStorage w2)))"

definition removeItem :: "string \<Rightarrow> world \<Rightarrow> world" where
  "removeItem productId w =
     updateCartUI (saveToStorage (w\<lparr>items := filter (\<lambda>item. id' item \<noteq> productId) (items w)\<rparr>))"

definition updateQuantity :: "string \<Rightarrow> int \<Rightarrow> world \<Rightarrow> world" where
  "updateQuantity productId qty w =
     (case find (\<lambda>item. id' item = productId) (items w) of
        None \<Rightarrow> w
      | Some item \<Rightarrow>
          if qty \<le> 0 then removeItem productId w
          else updateCartUI (saveToStorage
                 (w\<lparr>items := update_first (\<lambda>item. id' item = productId)
                                (\<lambda>item. item\<lparr>quantity := qty\<rparr>) (items w)\<rparr>)))"

text \<open>
  The constructor assigns \<^verbatim>\<open>this.items = this.loadFromStorage()\<close> and calls
  \<^verbatim>\<open>updateCartUI\<close>, whose \<^verbatim>\<open>getItemCount\<close> runs \<^verbatim>\<open>this.items.reduce\<close> reading
  \<^verbatim>\<open>item.quantity\<close> of every element. That throws a TypeError when the stored value is
  not an array, and when an element is \<^verbatim>\<open>null\<close>. When every element is a cart line the
  constructor returns. An array holding other values leaves the JavaScript cart with lines
  outside the data model (\<^verbatim>\<open>quantity\<close> undefined, a count that is not a number); the model
  marks that outcome \<open>Untyped\<close> and states nothing about it.
\<close>

datatype 'a completion = Returned 'a | Threw js_error | Untyped

definition Cart_constructor :: "world \<Rightarrow> world completion" where
  "Cart_constructor w =
     (case loadFromStorage w of
        JArr vs \<Rightarrow>
          if JNull \<in> set vs then Threw TypeError
          else (case those (map line_of_json vs) of
                  Some ls \<Rightarrow> Returned (updateCartUI (w\<lparr>items := ls\<rparr>))
                | None \<Rightarrow> Untyped)
      | _ \<Rightarrow> Threw TypeError)"

text \<open>The operations of the cart as data, to speak about sequences of them.\<close>

datatype cart_op = AddItem string int | RemoveItem string | UpdateQuantity string int

fun step :: "env \<Rightarrow> world \<Rightarrow> cart_op \<Rightarrow> world" where
  "step e w (AddItem productId qty) = addItem e productId qty w"
| "step e w (RemoveItem productId) = removeItem productId w"
| "step e w (UpdateQuantity productId qty) = updateQuantity productId qty w"

definition run :: "env \<Rightarrow> cart_op list \<Rightarrow> world \<Rightarrow> world" where
  "run e ops w = foldl (step e) w ops"

definition is_commit :: "effect \<Rightarrow> bool" where
  "is_commit ev = (case ev of StorageSet k v \<Rightarrow> True | Rendered d \<Rightarrow> True | _ \<Rightarrow> False)"

section \<open>services/authService.js\<close>

text \<open>
  \<^verbatim>\<open>refreshToken\<close>: without a stored refresh token it returns false and sends nothing;
  otherwise one POST to \<^verbatim>\<open>/auth/refresh\<close>, and true exactly when the reply reports
  success, in which case the new access token is stored. Every fault is caught, logged and
  answered with false.
\<close>

definition refreshToken :: "env \<Rightarrow> world \<Rightarrow> bool \<times> world" where
  "refreshToken e w =
     (if \<not> truthy (localStorage w ''refreshToken'') then (False, w)
      else
        (let rt = the (localStorage w ''refreshToken'');
             req = \<lparr>url = API_BASE_URL @ ''/auth/refresh'', http_method = ''POST'',
                    authorization = None,
                    body = Some (JSON_stringify (JObj [(''refreshToken'', JStr rt)]))\<rparr>;
             (response, w1) = fetch e req w
         in case response of
              NetworkFailure \<Rightarrow> (False, console ERROR ''Error al renovar token:'' w1)
            | Response status statusText rbody \<Rightarrow>
                (case rbody of
                   None \<Rightarrow> (False, console ERROR ''Error al renovar token:'' w1)
                 | Some d \<Rightarrow>
                     if success d then
                       (case data d of
                          None \<Rightarrow> (False, console ERROR ''Error al renovar token:'' w1)
                        | Some pl \<Rightarrow>
                            (True, localStorage_setItem ''accessToken''
                                     (case data_accessToken pl of Some t \<Rightarrow> t | None \<Rightarrow> ''undefined'') w1))
                     else (False, w1))))"

text \<open>
  \<^verbatim>\<open>apiRequest\<close> of the auth service, from the moment its \<^verbatim>\<open>fetch\<close> settles. The body
  is read before the status is looked at, so a reply whose body is not JSON throws a
  SyntaxError whatever its status. On a status that is not ok: if it is 401 and a token
  was sent, one call of \<^verbatim>\<open>refreshToken\<close>, and if that returns true one retry with the
  stored token, whose body is returned whatever its status; in every other case an Error
  is thrown. Every throw is logged and rethrown.
\<close>

definition apiRequest_settled ::
  "env \<Rightarrow> string option \<Rightarrow> request \<Rightarrow> fetch_result \<Rightarrow> world \<Rightarrow> (js_error + api_body) \<times> world" where
  "apiRequest_settled e token config response w1 =
     (case response of
           NetworkFailure \<Rightarrow> (Inl TypeError, console ERROR ''Error en API request:'' w1)
         | Response status statusText rbody \<Rightarrow>
             (case rbody of
                None \<Rightarrow> (Inl SyntaxError, console ERROR ''Error en API request:'' w1)
              | Some d \<Rightarrow>
                  if ok status then (Inr d, w1)
                  else if status = 401 \<and> truthy token then
                    (let (refreshed, w2) = refreshToken e w1
                     in if refreshed then
                          (let config' = config\<lparr>authorization :=
                                 Some (''Bearer '' @ (case localStorage w2 ''accessToken'' of
                                                        Some t \<Rightarrow> t | None \<Rightarrow> ''null''))\<rparr>;
                               (retryResponse, w3) = fetch e config' w2
                           in case retryResponse of
                                NetworkFailure \<Rightarrow> (Inl TypeError, console ERROR ''Error en API request:'' w3)
                              | Response retryStatus retryText retryBody \<Rightarrow>
                                  (case retryBody of
                                     None \<Rightarrow> (Inl SyntaxError, console ERROR ''Error en API request:'' w3)
                                   | Some retryData \<Rightarrow> (Inr retryData, w3)))
                        else (Inl (Error (message_or d ''Error en la peticion'')),
                              console ERROR ''Error en API request:'' w2))
                  else (Inl (Error (message_or d ''Error en la peticion'')),
                        console ERROR ''Error en API request:'' w1)))"

text \<open>\<^verbatim>\<open>apiRequest\<close>, awaited: the token is read, the request built and sent, the reply handled.\<close>

definition apiRequest ::
  "env \<Rightarrow> string \<Rightarrow> request_options \<Rightarrow> world \<Rightarrow> (js_error + api_body) \<times> world" where
  "apiRequest e endpoint options w =
     (let token = localStorage w ''accessToken'';
          config = make_config endpoint options token;
          (response, w1) = fetch e config w
      in apiRequest_settled e token config response w1)"

text \<open>
  \<^verbatim>\<open>logout\<close>, awaited: the server is told, a fault is logged, and the three keys are
  always removed.
\<close>

definition logout_options :: request_options where
  "logout_options = \<lparr>opt_method = Some ''POST'', opt_body = None\<rparr>"

definition logout_finally :: "(js_error + api_body) \<times> world \<Rightarrow> world" where
  "logout_finally rw =
     (let (r, w1) = rw;
          w2 = (case r of
                  Inl err \<Rightarrow> console ERROR ''Error al cerrar sesion en servidor:'' w1
                | Inr d \<Rightarrow> w1)
      in localStorage_removeItem ''currentUser''
           (localStorage_removeItem ''refreshToken''
             (localStorage_removeItem ''accessToken'' w2)))"

definition logout :: "env \<Rightarrow> world \<Rightarrow> world" where
  "logout e w = logout_finally (apiRequest e ''/auth/logout'' logout_options w)"

text \<open>
  A call of \<^verbatim>\<open>logout()\<close> that is not awaited runs up to its first \<^verbatim>\<open>await\<close>: the token
  is read, the request built and handed to \<^verbatim>\<open>fetch\<close>. The caller goes on from there. What
  is left of the call (\<open>in_flight\<close>: the token read, the request, and the reply it will
  get) runs once the reply has arrived, on the page as it is then.
\<close>

record in_flight =
  sent_token :: "string option"
  sent_config :: request
  reply :: fetch_result

definition logout_called :: "env \<Rightarrow> world \<Rightarrow> in_flight \<times> world" where
  "logout_called e w =
     (let token = localStorage w ''accessToken'';
          config = make_config ''/auth/logout'' logout_options token;
          (response, w1) = fetch e config w
      in (\<lparr>sent_token = token, sent_config = config, reply = response\<rparr>, w1))"

definition logout_resumed :: "env \<Rightarrow> in_flight \<Rightarrow> world \<Rightarrow> world" where
  "logout_resumed e call w =
     logout_finally (apiRequest_settled e (sent_token call) (sent_config call) (reply call) w)"

text \<open>
  \<^verbatim>\<open>getCurrentUser\<close>: the user of a successful reply is stored and returned; a reply
  without success gives \<^verbatim>\<open>null\<close>; a fault is logged, \<^verbatim>\<open>logout()\<close> is called without
  \<^verbatim>\<open>await\<close> and \<^verbatim>\<open>null\<close> is returned. The result is the value, the page at the moment
  of the return, and the call of \<^verbatim>\<open>logout\<close> left in flight, if any.
\<close>

definition getCurrentUser_caught :: "env \<Rightarrow> world \<Rightarrow> json option \<times> world \<times> in_flight option" where
  "getCurrentUser_caught e w1 =
     (let (call, w2) = logout_called e (console ERROR ''Error al obtener usuario:'' w1)
      in (None, w2, Some call))"

definition getCurrentUser :: "env \<Rightarrow> world \<Rightarrow> json option \<times> world \<times> in_flight option" where
  "getCurrentUser e w =
     (let (r, w1) = apiRequest e ''/auth/me'' no_options w
      in case r of
           Inl err \<Rightarrow> getCurrentUser_caught e w1
         | Inr response \<Rightarrow>
             if success response then
               (case data response of
                  None \<Rightarrow> getCurrentUser_caught e w1
                | Some pl \<Rightarrow>
                    (data_user pl,
                     localStorage_setItem ''currentUser''
                       (case data_user pl of Some u \<Rightarrow> JSON_stringify u | None \<Rightarrow> ''undefined'') w1,
                     None))
             else (None, w1, None))"

definition isAuthenticated :: "world \<Rightarrow> bool" where
  "isAuthenticated w \<longleftrightarrow> truthy (localStorage w ''accessToken'') \<and> truthy (localStorage w ''currentUser'')"

section \<open>Scenarios and auxiliary notions\<close>

text \<open>The text under which \<^verbatim>\<open>saveToStorage\<close> stores the lines of a world.\<close>

definition cart_text :: "world \<Rightarrow> string" where
  "cart_text w = JSON_stringify (JArr (map line_to_json (items w)))"

text \<open>
  An operation reaches its mutation when it passes the guards in front of it: the product
  resolves (\<^verbatim>\<open>addItem\<close>), the line is found (\<^verbatim>\<open>updateQuantity\<close>); \<^verbatim>\<open>removeItem\<close> has no
  guard.
\<close>

definition reaches_mutation :: "env \<Rightarrow> world \<Rightarrow> cart_op \<Rightarrow> bool" where
  "reaches_mutation e w op =
     (case op of
        AddItem productId qty \<Rightarrow> fst (resolveProduct e productId w) \<noteq> None
      | RemoveItem productId \<Rightarrow> True
      | UpdateQuantity productId qty \<Rightarrow> find (\<lambda>item. id' item = productId) (items w) \<noteq> None)"

text \<open>A step that leaves the cart alone: it may log and send requests, nothing else.\<close>

definition quiet :: "world \<Rightarrow> world \<Rightarrow> bool" where
  "quiet w w' \<longleftrightarrow>
     items w' = items w \<and> localStorage w' = localStorage w \<and> PRODUCTS w' = PRODUCTS w
     \<and> document w' = document w
     \<and> (\<exists>evs. journal w' = journal w @ evs \<and> filter is_commit evs = [])"

text \<open>A page with the cart panel, as loaded: nothing counted, nothing rendered, total 0.\<close>

definition page_as_loaded :: dom where
  "page_as_loaded =
     \<lparr>cart_panel = True, data_count = 0, cartItems_display = display_unset,
      cartItems_innerHTML = [], cartEmpty_display = display_unset,
      cartCheckout_disabled = False, cartTotal_textContent = 0\<rparr>"

text \<open>The empty cart of a page whose catalog cache holds the product sku-1.\<close>

definition scenario_sku :: world where
  "scenario_sku =
     \<lparr>localStorage = Map.empty,
      PRODUCTS = [\<lparr>id' = ''sku-1'', name = ''Collar'', price = 250, image' = ''assets/c.jpg''\<rparr>],
      items = [], document = page_as_loaded, journal = [], network = []\<rparr>"

text \<open>Notions used to prove that the reader inverts the writer.\<close>

fun no_digit_ahead :: "string \<Rightarrow> bool" where
  "no_digit_ahead [] = True"
| "no_digit_ahead (c # _) = (\<not> is_digit c)"

fun starts_token :: "string \<Rightarrow> bool" where
  "starts_token [] = False"
| "starts_token (c # _) = (\<not> is_ws c \<and> c \<noteq> CHR '']'' \<and> c \<noteq> CHR ''}'')"

definition parses :: "json \<Rightarrow> bool" where
  "parses v \<longleftrightarrow> (\<forall>n rest. length (JSON_stringify v) \<le> n \<longrightarrow> no_digit_ahead rest \<longrightarrow>
     parse_value n (JSON_stringify v @ rest) = Some (v, rest))"

definition member_text :: "string \<times> json \<Rightarrow> string" where
  "member_text kv = quote (fst kv) @ CHR '':'' # JSON_stringify (snd kv)"

text \<open>A page on which the product service never loaded and the backend cannot be reached.\<close>

definition offline :: env where
  "offline = \<lparr>productService = False, server = (\<lambda>history req. NetworkFailure)\<rparr>"

text \<open>
  Resolution of a product identifier fails, said on the environment: the cache has no
  product of that identifier, and the service is not loaded, or its request is rejected,
  answered with a status that is not ok, with a body that is not JSON, without success,
  or without a product.
\<close>

definition resolution_fails :: "env \<Rightarrow> string \<Rightarrow> world \<Rightarrow> bool" where
  "resolution_fails e productId w \<longleftrightarrow>
     find (\<lambda>p. id' p = productId) (PRODUCTS w) = None
     \<and> (\<not> productService e
        \<or> (case server e (network w)
                   (make_config (''/products/'' @ productId) no_options (localStorage w ''accessToken'')) of
              NetworkFailure \<Rightarrow> True
            | Response status statusText rbody \<Rightarrow>
                \<not> ok status
                \<or> (case rbody of
                      None \<Rightarrow> True
                    | Some b \<Rightarrow>
                        \<not> success b
                        \<or> (case data b of None \<Rightarrow> True | Some d \<Rightarrow> data_product d = None))))"

text \<open>A backend that knows no product: every request is answered 404, without success.\<close>

definition empty_catalog :: env where
  "empty_catalog =
     \<lparr>productService = True,
      server = (\<lambda>history req. Response 404 ''Not Found''
                  (Some \<lparr>success = False, message = Some ''Producto no encontrado'', data = None\<rparr>))\<rparr>"

text \<open>The service is loaded and the backend cannot be reached.\<close>

definition unreachable :: env where
  "unreachable = \<lparr>productService = True, server = (\<lambda>history req. NetworkFailure)\<rparr>"

text \<open>A cart holding two of sku-1, as persisted and rendered by \<^verbatim>\<open>addItem\<close>.\<close>

definition scenario_two :: world where
  "scenario_two = addItem offline ''sku-1'' 2 scenario_sku"

text \<open>The request \<^verbatim>\<open>refreshToken\<close> sends for a stored refresh token.\<close>

definition refresh_request :: "string \<Rightarrow> request" where
  "refresh_request rt =
     \<lparr>url = API_BASE_URL @ ''/auth/refresh'', http_method = ''POST'', authorization = None,
      body = Some (JSON_stringify (JObj [(''refreshToken'', JStr rt)]))\<rparr>"

text \<open>A page with a session in storage: an access token, a refresh token and a user.\<close>

definition scenario_session :: world where
  "scenario_session =
     \<lparr>localStorage = [''accessToken'' \<mapsto> ''old'', ''refreshToken'' \<mapsto> ''r1'', ''currentUser'' \<mapsto> ''{}''],
      PRODUCTS = [], items = [], document = page_as_loaded, journal = [], network = []\<rparr>"

text \<open>A backend on which the session has expired for good: every request is answered 401.\<close>

definition expired :: env where
  "expired =
     \<lparr>productService = True,
      server = (\<lambda>history req. Response 401 ''Unauthorized''
                  (Some \<lparr>success = False, message = Some ''Token invalido'', data = None\<rparr>))\<rparr>"

text \<open>
  A backend that renews the session: the refresh request is answered with the token
  \<^verbatim>\<open>new\<close>, a request bearing it with the user, every other request with 401.
\<close>

definition renewing :: env where
  "renewing =
     \<lparr>productService = True,
      server = (\<lambda>history req.
        if url req = API_BASE_URL @ ''/auth/refresh'' then
          Response 200 ''OK''
            (Some \<lparr>success = True, message = None,
                   data = Some \<lparr>data_user = None, data_accessToken = Some ''new'',
                                data_refreshToken = None, data_product = None\<rparr>\<rparr>)
        else if authorization req = Some ''Bearer new'' then
          Response 200 ''OK''
            (Some \<lparr>success = True, message = None,
                   data = Some \<lparr>data_user = Some (JObj [(''email'', JStr ''ana@example.com'')]),
                                data_accessToken = None, data_refreshToken = None,
                                data_product = None\<rparr>\<rparr>)
        else
          Response 401 ''Unauthorized''
            (Some \<lparr>success = False, message = Some ''Token expirado'', data = None\<rparr>))\<rparr>"

text \<open>
  A gateway in front of the backend that turns the session away itself: every request is
  answered 401 with the plain text \<^verbatim>\<open>Unauthorized\<close>, which is not JSON.
\<close>

definition gateway :: env where
  "gateway = \<lparr>productService = True, server = (\<lambda>history req. Response 401 ''Unauthorized'' None)\<rparr>"

text \<open>
  A backend that knows one product under several names and answers every product request
  with its record, whose identifier is sku-1.
\<close>

definition aliasing :: env where
  "aliasing =
     \<lparr>productService = True,
      server = (\<lambda>history req. Response 200 ''OK''
        (Some \<lparr>success = True, message = None,
               data = Some \<lparr>data_user = None, data_accessToken = None, data_refreshToken = None,
                            data_product = Some \<lparr>api_id = ''sku-1'', nombre = ''Collar'', precio = 250,
                                                  imagenes = [], api_image = Some ''assets/c.jpg''\<rparr>\<rparr>\<rparr>))\<rparr>"

text \<open>
  A backend that answers the request for a product with a record carrying the identifier
  of the request.
\<close>

definition catalog :: env where
  "catalog =
     \<lparr>productService = True,
      server = (\<lambda>history req.
        if take (length (API_BASE_URL @ ''/products/'')) (url req) = API_BASE_URL @ ''/products/'' then
          Response 200 ''OK''
            (Some \<lparr>success = True, message = None,
                   data = Some \<lparr>data_user = None, data_accessToken = None, data_refreshToken = None,
                                data_product =
                                  Some \<lparr>api_id = drop (length (API_BASE_URL @ ''/products/'')) (url req),
                                        nombre = ''Anillo'', precio = 120, imagenes = [],
                                        api_image = None\<rparr>\<rparr>\<rparr>)
        else Response 404 ''Not Found'' None)\<rparr>"

section \<open>The reader inverts the writer\<close>

subsection \<open>Numbers\<close>

lemma skip_ws_non_ws: "\<not> is_ws c \<Longrightarrow> skip_ws (c # s) = c # s"
  by (simp add: skip_ws_def)

lemma of_char_digit_char: "d < 10 \<Longrightarrow> (of_char (digit_char d) :: nat) = 48 + d"
  by (simp add: digit_char_def)

lemma is_digit_digit_char: "d < 10 \<Longrightarrow> is_digit (digit_char d)"
  by (simp add: is_digit_def of_char_digit_char)

lemma digit_val_digit_char: "d < 10 \<Longrightarrow> digit_val (digit_char d) = d"
  by (simp add: digit_val_def of_char_digit_char)

lemma digit_char_eq_zero: "d < 10 \<Longrightarrow> digit_char d = CHR ''0'' \<longleftrightarrow> d = 0"
proof -
  assume d: "d < 10"
  have "digit_char d = CHR ''0'' \<longleftrightarrow> (of_char (digit_char d) :: nat) = of_char (CHR ''0'')"
    by (metis of_char_eq_iff)
  then show ?thesis using d by (simp add: of_char_digit_char)
qed

lemma show_nat_digits: "\<forall>c \<in> set (show_nat n). is_digit c"
  by (induction n rule: show_nat.induct) (subst show_nat.simps, simp add: is_digit_digit_char)

lemma show_nat_nonempty: "show_nat n \<noteq> []"
  by (subst show_nat.simps) simp

lemma nat_of_digits_snoc: "nat_of_digits (ds @ [c]) = 10 * nat_of_digits ds + digit_val c"
  by (simp add: nat_of_digits_def)

lemma nat_of_digits_show_nat: "nat_of_digits (show_nat n) = n"
proof (induction n rule: show_nat.induct)
  case (1 n)
  show ?case
  proof (cases "n < 10")
    case True
    then show ?thesis
      by (subst show_nat.simps) (simp add: nat_of_digits_def digit_val_digit_char)
  next
    case False
    with 1 show ?thesis
      by (subst show_nat.simps) (simp add: nat_of_digits_snoc digit_val_digit_char)
  qed
qed

lemma hd_show_nat: "10 \<le> n \<Longrightarrow> hd (show_nat n) \<noteq> CHR ''0''"
proof (induction n rule: show_nat.induct)
  case (1 n)
  then have big: "\<not> n < 10" by simp
  have hd_eq: "hd (show_nat n) = hd (show_nat (n div 10))"
    using big show_nat_nonempty [of "n div 10"] by (subst show_nat.simps) simp
  show ?case
  proof (cases "n div 10 < 10")
    case True
    have "0 < n div 10" using big by simp
    with True show ?thesis unfolding hd_eq
      by (subst show_nat.simps) (simp add: digit_char_eq_zero)
  next
    case False
    with 1 big show ?thesis unfolding hd_eq by simp
  qed
qed

lemma show_nat_no_leading_zero: "\<not> (hd (show_nat n) = CHR ''0'' \<and> tl (show_nat n) \<noteq> [])"
proof (cases "n < 10")
  case True
  then show ?thesis by (subst (2) show_nat.simps) simp
next
  case False
  then show ?thesis using hd_show_nat [of n] by simp
qed

lemma takeWhile_digits: "no_digit_ahead rest \<Longrightarrow> takeWhile is_digit (show_nat n @ rest) = show_nat n"
  by (cases rest) (simp_all add: takeWhile_append2 show_nat_digits)

lemma dropWhile_digits: "no_digit_ahead rest \<Longrightarrow> dropWhile is_digit (show_nat n @ rest) = rest"
  by (cases rest) (simp_all add: dropWhile_append2 show_nat_digits)

lemma show_nat_Cons: "\<exists>c t. show_nat n = c # t \<and> is_digit c"
  using show_nat_digits [of n] show_nat_nonempty [of n] by (cases "show_nat n") auto

lemma hd_show_nat_not_minus: "hd (show_nat n) \<noteq> CHR ''-''"
proof -
  have "is_digit (hd (show_nat n))"
    using show_nat_digits [of n] show_nat_nonempty [of n] by (cases "show_nat n") auto
  then show ?thesis by (auto simp: is_digit_def)
qed

lemma parse_number_show:
  assumes "no_digit_ahead rest"
  shows "parse_number (JSON_stringify (JNum n) @ rest) = Some (JNum n, rest)"
proof (cases "n < 0")
  case True
  then show ?thesis
    using assms show_nat_no_leading_zero [of "nat (- n)"] show_nat_nonempty [of "nat (- n)"]
    by (simp add: parse_number_def takeWhile_digits dropWhile_digits nat_of_digits_show_nat Let_def)
next
  case False
  obtain c t where ct: "show_nat (nat n) = c # t"
    using show_nat_nonempty [of "nat n"] by (cases "show_nat (nat n)") auto
  with hd_show_nat_not_minus [of "nat n"] have c: "c \<noteq> CHR ''-''" by simp
  have tw: "takeWhile is_digit (c # t @ rest) = c # t" and dw: "dropWhile is_digit (c # t @ rest) = rest"
    using takeWhile_digits [OF assms, of "nat n"] dropWhile_digits [OF assms, of "nat n"] ct by simp_all
  from False c show ?thesis
    using show_nat_no_leading_zero [of "nat n"] nat_of_digits_show_nat [of "nat n"] ct
    by (simp add: parse_number_def Let_def tw dw del: takeWhile.simps dropWhile.simps)
qed

subsection \<open>Strings\<close>

lemma hex_val_hex_char: "d < 16 \<Longrightarrow> hex_val (hex_char d) = Some d"
  by (simp add: hex_val_def hex_char_def Let_def)

lemma hex_val_zero: "hex_val (CHR ''0'') = Some 0"
  by (simp add: hex_val_def)

lemma parse_chars_escape: "parse_chars (escape_char c @ t) = cons_result c (parse_chars t)"
proof -
  consider (quote) "c = CHR 0x22" | (backslash) "c = CHR 0x5C"
    | (short) "c \<in> {CHR 0x08, CHR 0x09, CHR 0x0A, CHR 0x0C, CHR 0x0D}"
    | (control) "c \<notin> {CHR 0x22, CHR 0x5C, CHR 0x08, CHR 0x09, CHR 0x0A, CHR 0x0C, CHR 0x0D}" "(of_char c :: nat) < 32"
    | (plain) "c \<notin> {CHR 0x22, CHR 0x5C, CHR 0x08, CHR 0x09, CHR 0x0A, CHR 0x0C, CHR 0x0D}" "\<not> (of_char c :: nat) < 32"
    by blast
  then show ?thesis
  proof cases
    case quote
    then show ?thesis by (simp add: escape_char_def unescape_def)
  next
    case backslash
    then show ?thesis by (simp add: escape_char_def unescape_def)
  next
    case short
    then show ?thesis by (auto simp: escape_char_def unescape_def)
  next
    case control
    let ?n = "of_char c :: nat"
    have hi: "?n div 16 < 16" and lo: "?n mod 16 < 16" using control(2) by simp_all
    have again: "char_of (16 * (?n div 16) + ?n mod 16) = c" by simp
    from control show ?thesis
      by (simp add: escape_char_def hex_val_zero hex_val_hex_char [OF hi] hex_val_hex_char [OF lo] again)
  next
    case plain
    then show ?thesis by (simp add: escape_char_def)
  qed
qed

lemma parse_chars_quote:
  "parse_chars (concat (map escape_char s) @ CHR 0x22 # rest) = Some (s, rest)"
  by (induction s) (simp_all add: parse_chars_escape cons_result_def)

subsection \<open>Values\<close>

lemma starts_token_append: "starts_token s \<Longrightarrow> starts_token (s @ t)"
  by (cases s) simp_all

lemma is_digit_cases:
  "is_digit c \<Longrightarrow> \<not> is_ws c \<and> c \<noteq> CHR '']'' \<and> c \<noteq> CHR ''}'' \<and> c \<noteq> CHR ''['' \<and> c \<noteq> CHR ''{''
     \<and> c \<noteq> CHR 0x22 \<and> c \<noteq> CHR ''n'' \<and> c \<noteq> CHR ''t'' \<and> c \<noteq> CHR ''f'' \<and> c \<noteq> CHR '',''"
  by (auto simp: is_digit_def is_ws_def)

lemma stringify_starts: "starts_token (JSON_stringify v)"
proof (cases v)
  case (JNum n)
  show ?thesis
  proof (cases "n < 0")
    case True
    with JNum show ?thesis by (simp add: is_ws_def)
  next
    case False
    obtain c t where ct: "show_nat (nat n) = c # t" and "is_digit c" using show_nat_Cons by blast
    then have "\<not> is_ws c \<and> c \<noteq> CHR '']'' \<and> c \<noteq> CHR ''}''" using is_digit_cases by blast
    with JNum False ct show ?thesis by simp
  qed
qed (simp_all add: is_ws_def quote_def)

lemma stringify_nonempty: "JSON_stringify v \<noteq> []"
  using stringify_starts [of v] by (cases "JSON_stringify v") simp_all

lemma commas_starts: "xs \<noteq> [] \<Longrightarrow> starts_token (hd xs) \<Longrightarrow> starts_token (commas xs)"
  by (induction xs rule: commas.induct) (simp_all add: starts_token_append)

lemma parsesD:
  "parses v \<Longrightarrow> length (JSON_stringify v) \<le> n \<Longrightarrow> no_digit_ahead rest \<Longrightarrow>
     parse_value n (JSON_stringify v @ rest) = Some (v, rest)"
  by (simp add: parses_def)

lemma not_digit_punct: "\<not> is_digit (CHR '','')" "\<not> is_digit (CHR '']'')" "\<not> is_digit (CHR ''}'')"
  by (simp_all add: is_digit_def)

lemma not_ws_punct: "\<not> is_ws (CHR '','')" "\<not> is_ws (CHR '']'')" "\<not> is_ws (CHR ''}'')" "\<not> is_ws (CHR '':'')"
  "\<not> is_ws (CHR 0x22)" "\<not> is_ws (CHR ''['')" "\<not> is_ws (CHR ''{'')"
  by (simp_all add: is_ws_def)

lemma parse_elements_commas:
  assumes "\<forall>x \<in> set xs. parses x" and "xs \<noteq> []"
    and "length (commas (map JSON_stringify xs)) < n"
  shows "parse_elements n (commas (map JSON_stringify xs) @ CHR '']'' # rest) = Some (xs, rest)"
  using assms
proof (induction xs arbitrary: n)
  case Nil
  then show ?case by simp
next
  case (Cons x xs)
  from Cons.prems(3) obtain m where n: "n = Suc m" by (cases n) auto
  have px: "parses x" using Cons.prems(1) by simp
  show ?case
  proof (cases xs)
    case Nil
    have len: "length (JSON_stringify x) \<le> m" using Cons.prems(3) n Nil by simp
    have "parse_value m (JSON_stringify x @ CHR '']'' # rest) = Some (x, CHR '']'' # rest)"
      by (rule parsesD [OF px len]) (simp add: not_digit_punct)
    then show ?thesis using Nil n by (simp add: skip_ws_non_ws not_ws_punct)
  next
    case (Cons y ys)
    let ?tail = "commas (map JSON_stringify xs) @ CHR '']'' # rest"
    have len: "length (JSON_stringify x) \<le> m" and len': "length (commas (map JSON_stringify xs)) < m"
      using Cons.prems(3) n Cons by simp_all
    have "parse_value m (JSON_stringify x @ CHR '','' # ?tail) = Some (x, CHR '','' # ?tail)"
      by (rule parsesD [OF px len]) (simp add: not_digit_punct)
    moreover have "parse_elements m ?tail = Some (xs, rest)"
      using Cons.IH [of m] Cons.prems(1) len' Cons by simp
    ultimately show ?thesis using Cons n
      by (simp add: skip_ws_non_ws not_ws_punct cons_result_def)
  qed
qed

lemma member_text_pair:
  "member_text (k, v) = CHR 0x22 # concat (map escape_char k) @ CHR 0x22 # CHR '':'' # JSON_stringify v"
  by (simp add: member_text_def quote_def)

lemma parse_members_commas:
  assumes "\<forall>kv \<in> set kvs. parses (snd kv)" and "kvs \<noteq> []"
    and "length (commas (map member_text kvs)) < n"
  shows "parse_members n (commas (map member_text kvs) @ CHR ''}'' # rest) = Some (kvs, rest)"
  using assms
proof (induction kvs arbitrary: n)
  case Nil
  then show ?case by simp
next
  case (Cons kv kvs)
  obtain k v where kv: "kv = (k, v)" by (cases kv)
  from Cons.prems(3) obtain m where n: "n = Suc m" by (cases n) auto
  have pv: "parses v" using Cons.prems(1) kv by simp
  have key: "\<And>t. parse_chars (concat (map escape_char k) @ CHR 0x22 # t) = Some (k, t)"
    by (rule parse_chars_quote)
  show ?case
  proof (cases kvs)
    case Nil
    have len: "length (JSON_stringify v) \<le> m"
      using Cons.prems(3) n Nil kv by (simp add: member_text_pair)
    have "parse_value m (JSON_stringify v @ CHR ''}'' # rest) = Some (v, CHR ''}'' # rest)"
      by (rule parsesD [OF pv len]) (simp add: not_digit_punct)
    then show ?thesis using Nil n key unfolding kv
      by (simp add: member_text_pair skip_ws_non_ws not_ws_punct)
  next
    case (Cons kv' kvs')
    let ?tail = "commas (map member_text kvs) @ CHR ''}'' # rest"
    have split: "commas (map member_text ((k, v) # kvs)) = member_text (k, v) @ CHR '','' # commas (map member_text kvs)"
      using Cons by simp
    have total: "length (member_text (k, v)) + 1 + length (commas (map member_text kvs)) < Suc m"
      using Cons.prems(3) n unfolding kv split by simp
    have len: "length (JSON_stringify v) \<le> m" and len': "length (commas (map member_text kvs)) < m"
      using total by (simp_all add: member_text_pair)
    have "parse_value m (JSON_stringify v @ CHR '','' # ?tail) = Some (v, CHR '','' # ?tail)"
      by (rule parsesD [OF pv len]) (simp add: not_digit_punct)
    moreover have "parse_members m ?tail = Some (kvs, rest)"
      using Cons.IH [of m] Cons.prems(1) len' Cons by simp
    ultimately show ?thesis using n key unfolding kv split
      by (simp add: member_text_pair skip_ws_non_ws not_ws_punct cons_result_def)
  qed
qed

lemma stringify_obj_text:
  "JSON_stringify (JObj kvs) = CHR ''{'' # commas (map member_text kvs) @ ''}''"
proof -
  have "(\<lambda>kv. quote (fst kv) @ CHR '':'' # JSON_stringify (snd kv)) = member_text"
    by (rule ext) (simp add: member_text_def)
  then show ?thesis by simp
qed

lemma member_text_starts: "starts_token (member_text kv)"
  by (simp add: member_text_def quote_def is_ws_def)

lemma parse_value_number:
  assumes "c = CHR ''-'' \<or> is_digit c"
  shows "parse_value (Suc m) (c # t) = parse_number (c # t)"
proof -
  have "\<not> is_ws c \<and> c \<noteq> CHR ''['' \<and> c \<noteq> CHR ''{'' \<and> c \<noteq> CHR 0x22
      \<and> c \<noteq> CHR ''n'' \<and> c \<noteq> CHR ''t'' \<and> c \<noteq> CHR ''f''"
    using assms
  proof
    assume "c = CHR ''-''"
    then show ?thesis by (simp add: is_ws_def)
  next
    assume "is_digit c"
    then show ?thesis using is_digit_cases [of c] by blast
  qed
  then show ?thesis by (simp add: skip_ws_non_ws)
qed

lemma parses_JNum: "parses (JNum i)"
  unfolding parses_def
proof (intro allI impI)
  fix n rest assume len: "length (JSON_stringify (JNum i)) \<le> n" and nd: "no_digit_ahead rest"
  obtain c t where ct: "JSON_stringify (JNum i) = c # t" and c: "c = CHR ''-'' \<or> is_digit c"
  proof (cases "i < 0")
    case True
    then have "JSON_stringify (JNum i) = CHR ''-'' # show_nat (nat (- i))" by simp
    then show ?thesis using that by blast
  next
    case False
    obtain d u where "show_nat (nat i) = d # u" "is_digit d" using show_nat_Cons by blast
    moreover from False have "JSON_stringify (JNum i) = show_nat (nat i)" by simp
    ultimately show ?thesis using that by metis
  qed
  from len obtain m where n: "n = Suc m" unfolding ct by (cases n) auto
  have "parse_value (Suc m) (c # (t @ rest)) = parse_number (c # (t @ rest))"
    by (rule parse_value_number [OF c])
  also have "\<dots> = Some (JNum i, rest)"
    using parse_number_show [OF nd, of i] unfolding ct by simp
  finally show "parse_value n (JSON_stringify (JNum i) @ rest) = Some (JNum i, rest)"
    unfolding ct n by simp
qed

lemma parses_all: "parses v"
proof (induction v)
  case JNull
  show ?case unfolding parses_def
  proof (intro allI impI)
    fix n rest assume "length (JSON_stringify JNull) \<le> n"
    then obtain m where "n = Suc m" by (cases n) auto
    then show "parse_value n (JSON_stringify JNull @ rest) = Some (JNull, rest)"
      by (simp add: skip_ws_def is_ws_def strip_def)
  qed
next
  case (JBool b)
  show ?case unfolding parses_def
  proof (intro allI impI)
    fix n rest assume "length (JSON_stringify (JBool b)) \<le> n"
    then obtain m where "n = Suc m" by (cases n) (auto split: if_splits)
    then show "parse_value n (JSON_stringify (JBool b) @ rest) = Some (JBool b, rest)"
      by (simp add: skip_ws_def is_ws_def strip_def)
  qed
next
  case (JNum i)
  show ?case by (rule parses_JNum)
next
  case (JStr s)
  show ?case unfolding parses_def
  proof (intro allI impI)
    fix n rest assume "length (JSON_stringify (JStr s)) \<le> n"
    then obtain m where "n = Suc m" by (cases n) (auto simp: quote_def)
    then show "parse_value n (JSON_stringify (JStr s) @ rest) = Some (JStr s, rest)"
      by (simp add: quote_def skip_ws_non_ws not_ws_punct parse_chars_quote)
  qed
next
  case (JArr xs)
  then have IH: "\<forall>x \<in> set xs. parses x" by simp
  show ?case unfolding parses_def
  proof (intro allI impI)
    fix n rest assume len: "length (JSON_stringify (JArr xs)) \<le> n"
    then obtain m where n: "n = Suc m" by (cases n) auto
    show "parse_value n (JSON_stringify (JArr xs) @ rest) = Some (JArr xs, rest)"
    proof (cases "xs = []")
      case True
      then show ?thesis using n by (simp add: skip_ws_non_ws not_ws_punct)
    next
      case False
      let ?body = "commas (map JSON_stringify xs)"
      have "starts_token ?body"
        using False stringify_starts [of "hd xs"] by (intro commas_starts) (simp_all add: hd_map)
      then obtain d u where du: "?body = d # u" and d: "\<not> is_ws d" "d \<noteq> CHR '']''"
        by (cases ?body) auto
      have "length ?body < m" using len n by simp
      then have "parse_elements m (?body @ CHR '']'' # rest) = Some (xs, rest)"
        by (rule parse_elements_commas [OF IH False])
      then show ?thesis using n du d
        by (simp add: skip_ws_non_ws not_ws_punct)
    qed
  qed
next
  case (JObj kvs)
  have IH: "\<forall>kv \<in> set kvs. parses (snd kv)"
  proof
    fix kv assume "kv \<in> set kvs"
    moreover have "snd kv \<in> Basic_BNFs.snds kv" by (cases kv) simp
    ultimately show "parses (snd kv)" using JObj by blast
  qed
  show ?case unfolding parses_def
  proof (intro allI impI)
    fix n rest assume len: "length (JSON_stringify (JObj kvs)) \<le> n"
    then obtain m where n: "n = Suc m" by (cases n) auto
    show "parse_value n (JSON_stringify (JObj kvs) @ rest) = Some (JObj kvs, rest)"
    proof (cases "kvs = []")
      case True
      then show ?thesis using n by (simp add: skip_ws_non_ws not_ws_punct)
    next
      case False
      let ?body = "commas (map member_text kvs)"
      have "starts_token ?body"
        using False member_text_starts [of "hd kvs"] by (intro commas_starts) (simp_all add: hd_map)
      then obtain d u where du: "?body = d # u" and d: "\<not> is_ws d" "d \<noteq> CHR ''}''"
        by (cases ?body) auto
      have "length ?body < m" using len n unfolding stringify_obj_text by simp
      then have "parse_members m (?body @ CHR ''}'' # rest) = Some (kvs, rest)"
        by (rule parse_members_commas [OF IH False])
      then show ?thesis using n du d unfolding stringify_obj_text
        by (simp add: skip_ws_non_ws not_ws_punct)
    qed
  qed
qed

lemma JSON_roundtrip: "JSON_parse (JSON_stringify v) = Some v"
proof -
  have "parse_value (length (JSON_stringify v)) (JSON_stringify v @ []) = Some (v, [])"
    by (rule parsesD [OF parses_all]) simp_all
  then show ?thesis by (simp add: JSON_parse_def skip_ws_def)
qed

section \<open>The cart ledger\<close>


lemma update_first_split:
  "find P xs = Some x \<Longrightarrow>
     \<exists>ys zs. xs = ys @ x # zs \<and> (\<forall>y \<in> set ys. \<not> P y) \<and> P x \<and> update_first P f xs = ys @ f x # zs"
proof (induction xs)
  case Nil
  then show ?case by simp
next
  case (Cons a xs)
  show ?case
  proof (cases "P a")
    case True
    with Cons.prems have "a = x" by simp
    with True show ?thesis by (intro exI [of _ "[]"] exI [of _ xs]) simp
  next
    case False
    with Cons obtain ys zs where "xs = ys @ x # zs" "\<forall>y \<in> set ys. \<not> P y" "P x"
      "update_first P f xs = ys @ f x # zs" by auto
    with False show ?thesis by (intro exI [of _ "a # ys"] exI [of _ zs]) simp
  qed
qed

lemma find_id_Some: "i \<in> set (map id' ls) \<Longrightarrow> \<exists>l. find (\<lambda>item. id' item = i) ls = Some l"
  by (induction ls) auto

lemma find_id_None: "i \<notin> set (map id' ls) \<Longrightarrow> find (\<lambda>item. id' item = i) ls = None"
  by (induction ls) auto


lemma quiet_refl: "quiet w w"
  by (simp add: quiet_def)

lemma quiet_console: "quiet w w' \<Longrightarrow> quiet w (console lv msg w')"
  by (auto simp: quiet_def console_def is_commit_def)

lemma quiet_fetch: "quiet w w' \<Longrightarrow> quiet w (snd (fetch e req w'))"
  by (simp add: quiet_def fetch_def)

lemma quiet_caught: "quiet w w' \<Longrightarrow> quiet w (productService_caught endpoint w')"
  by (simp add: productService_caught_def quiet_console)

lemma quiet_productService_apiRequest:
  "quiet w w' \<Longrightarrow> quiet w (snd (productService_apiRequest e endpoint options w'))"
  by (simp add: productService_apiRequest_def Let_def case_prod_beta quiet_caught quiet_console
      quiet_fetch split: fetch_result.splits option.splits)

lemma quiet_productService_getProductById:
  "quiet w w' \<Longrightarrow> quiet w (snd (productService_getProductById e i w'))"
  by (simp add: productService_getProductById_def Let_def case_prod_beta quiet_console
      quiet_productService_apiRequest split: sum.splits option.splits)

lemma quiet_getProductById: "quiet w w' \<Longrightarrow> quiet w (snd (getProductById e i w'))"
  by (simp add: getProductById_def Let_def case_prod_beta quiet_productService_getProductById
      split: option.splits)

lemma quiet_resolveProduct: "quiet w (snd (resolveProduct e i w))"
  by (simp add: resolveProduct_def quiet_getProductById quiet_refl split: option.splits)


lemma getters_saved:
  "getItemCount (saveToStorage w) = getItemCount w"
  "getTotal (saveToStorage w) = getTotal w"
  by (simp_all add: getItemCount_def getTotal_def saveToStorage_def localStorage_setItem_def)

lemma render_cong:
  "items w' = items w \<Longrightarrow> document w' = document w \<Longrightarrow>
     document (updateCartUI w') = document (updateCartUI w)"
  by (simp add: updateCartUI_def getItemCount_def getTotal_def Let_def)

lemma render_count: "data_count (document (updateCartUI w)) = getItemCount w"
  by (simp add: updateCartUI_def Let_def)

lemma render_panel: "cart_panel (document (updateCartUI w)) = cart_panel (document w)"
  by (simp add: updateCartUI_def Let_def)

lemma render_nonempty:
  "cart_panel (document w) \<Longrightarrow> items w \<noteq> [] \<Longrightarrow>
     document (updateCartUI w) =
       (document w)\<lparr>data_count := getItemCount w, cartItems_display := display_block,
                     cartEmpty_display := display_none, cartCheckout_disabled := False,
                     cartItems_innerHTML := items w, cartTotal_textContent := getTotal w\<rparr>"
  by (simp add: updateCartUI_def Let_def)

lemma render_empty:
  "cart_panel (document w) \<Longrightarrow> items w = [] \<Longrightarrow>
     document (updateCartUI w) =
       (document w)\<lparr>data_count := 0, cartItems_display := display_none,
                     cartEmpty_display := display_block, cartCheckout_disabled := True\<rparr>"
  by (simp add: updateCartUI_def Let_def getItemCount_def)

lemma render_no_panel:
  "\<not> cart_panel (document w) \<Longrightarrow>
     document (updateCartUI w) = (document w)\<lparr>data_count := getItemCount w\<rparr>"
  by (simp add: updateCartUI_def Let_def)

lemma render_twice:
  "items w' = items w \<Longrightarrow> document w' = document (updateCartUI w) \<Longrightarrow>
     document (updateCartUI w') = document (updateCartUI w)"
  by (simp add: updateCartUI_def getItemCount_def getTotal_def Let_def)

lemma commit_fields:
  "items (updateCartUI (saveToStorage w)) = items w"
  "PRODUCTS (updateCartUI (saveToStorage w)) = PRODUCTS w"
  "network (updateCartUI (saveToStorage w)) = network w"
  "localStorage (updateCartUI (saveToStorage w)) = (localStorage w)(''cart'' \<mapsto> cart_text w)"
  "document (updateCartUI (saveToStorage w)) = document (updateCartUI w)"
  "journal (updateCartUI (saveToStorage w)) =
     journal w @ [StorageSet ''cart'' (cart_text w), Rendered (document (updateCartUI w))]"
  by (simp_all add: updateCartUI_def saveToStorage_def localStorage_setItem_def cart_text_def
      getItemCount_def getTotal_def Let_def)

lemma cart_text_cong: "items w' = items w \<Longrightarrow> cart_text w' = cart_text w"
  by (simp add: cart_text_def)

lemma getters_cong:
  "items w' = items w \<Longrightarrow> getItemCount w' = getItemCount w"
  "items w' = items w \<Longrightarrow> getTotal w' = getTotal w"
  by (simp_all add: getItemCount_def getTotal_def)

lemma addItem_unresolved:
  "fst (resolveProduct e productId w) = None \<Longrightarrow>
     addItem e productId qty w =
       console WARN (''Producto no encontrado: '' @ productId) (snd (resolveProduct e productId w))"
  by (simp add: addItem_def case_prod_beta)

lemma addItem_resolved:
  assumes "fst (resolveProduct e productId w) = Some p"
  shows "addItem e productId qty w =
     updateCartUI (saveToStorage
       ((snd (resolveProduct e productId w))\<lparr>items :=
          (case find (\<lambda>item. id' item = productId) (items w) of
             Some existingItem \<Rightarrow>
               update_first (\<lambda>item. id' item = productId)
                 (\<lambda>item. item\<lparr>quantity := quantity item + qty\<rparr>) (items w)
           | None \<Rightarrow>
               items w @ [\<lparr>id' = id' p, name = name p, price = price p, image' = image' p,
                           quantity = qty\<rparr>])\<rparr>))"
proof -
  have "items (snd (resolveProduct e productId w)) = items w"
    using quiet_resolveProduct [of w e productId] by (simp add: quiet_def)
  with assms show ?thesis
    by (simp add: addItem_def case_prod_beta Let_def split: option.splits)
qed

lemma addItem_items:
  assumes "fst (resolveProduct e productId w) = Some p"
  shows "items (addItem e productId qty w) =
          (case find (\<lambda>item. id' item = productId) (items w) of
             Some existingItem \<Rightarrow>
               update_first (\<lambda>item. id' item = productId)
                 (\<lambda>item. item\<lparr>quantity := quantity item + qty\<rparr>) (items w)
           | None \<Rightarrow>
               items w @ [\<lparr>id' = id' p, name = name p, price = price p, image' = image' p,
                           quantity = qty\<rparr>])"
  by (simp add: addItem_resolved [OF assms] commit_fields)

lemma map_id_update_first:
  "(\<And>x. id' (f x) = id' x) \<Longrightarrow> map id' (update_first P f xs) = map id' xs"
  by (induction xs) simp_all

lemma first_line_split:
  assumes "productId \<in> set (map id' ls)"
  shows "\<exists>before l after. ls = before @ l # after \<and> id' l = productId
           \<and> productId \<notin> set (map id' before)
           \<and> find (\<lambda>item. id' item = productId) ls = Some l
           \<and> update_first (\<lambda>item. id' item = productId) f ls = before @ f l # after"
proof -
  from find_id_Some [OF assms] obtain l where l: "find (\<lambda>item. id' item = productId) ls = Some l" ..
  from update_first_split [OF l, of f] obtain ys zs where
    "ls = ys @ l # zs" "\<forall>y \<in> set ys. id' y \<noteq> productId" "id' l = productId"
    "update_first (\<lambda>item. id' item = productId) f ls = ys @ f l # zs" by blast
  with l show ?thesis by (intro exI [of _ ys] exI [of _ l] exI [of _ zs]) auto
qed

lemma scenario_sku_run:
  "items (run e [AddItem ''sku-1'' 2, AddItem ''sku-1'' 3] scenario_sku) =
     [\<lparr>id' = ''sku-1'', name = ''Collar'', price = 250, image' = ''assets/c.jpg'', quantity = 5\<rparr>]"
  by (simp add: run_def scenario_sku_def addItem_def resolveProduct_def updateCartUI_def
      saveToStorage_def localStorage_setItem_def Let_def)


section \<open>Persistence\<close>


lemma line_json_inverse: "line_of_json (line_to_json l) = Some l"
  by (cases l) (simp add: line_of_json_def line_to_json_def get_prop_def as_string_def as_number_def)

lemma lines_json_inverse: "those (map (line_of_json \<circ> line_to_json) ls) = Some ls"
  by (induction ls) (simp_all add: line_json_inverse)

lemma no_null_line: "JNull \<notin> set (map line_to_json ls)"
  by (auto simp: line_to_json_def)

lemma cart_text_nonempty: "cart_text w \<noteq> []"
  by (simp add: cart_text_def)

lemma loadFromStorage_text:
  "localStorage w ''cart'' = Some (cart_text w0) \<Longrightarrow> loadFromStorage w = JArr (map line_to_json (items w0))"
  using JSON_roundtrip [of "JArr (map line_to_json (items w0))"]
  by (simp add: loadFromStorage_def truthy_def cart_text_nonempty)
     (simp add: cart_text_def)

lemma saveToStorage_cart: "localStorage (saveToStorage w) ''cart'' = Some (cart_text w)"
  by (simp add: saveToStorage_def localStorage_setItem_def cart_text_def)

lemma scenario_two_fields:
  "items scenario_two = [\<lparr>id' = ''sku-1'', name = ''Collar'', price = 250, image' = ''assets/c.jpg'', quantity = 2\<rparr>]"
  "PRODUCTS scenario_two = [\<lparr>id' = ''sku-1'', name = ''Collar'', price = 250, image' = ''assets/c.jpg''\<rparr>]"
  "network scenario_two = []"
  "document scenario_two =
     \<lparr>cart_panel = True, data_count = 2, cartItems_display = display_block,
      cartItems_innerHTML =
        [\<lparr>id' = ''sku-1'', name = ''Collar'', price = 250, image' = ''assets/c.jpg'', quantity = 2\<rparr>],
      cartEmpty_display = display_none, cartCheckout_disabled = False,
      cartTotal_textContent = 500\<rparr>"
  by (simp_all add: scenario_two_def scenario_sku_def addItem_def resolveProduct_def updateCartUI_def
      saveToStorage_def localStorage_setItem_def Let_def page_as_loaded_def getItemCount_def
      getTotal_def)


section \<open>Removing lines and setting quantities\<close>


lemma removeItem_fields:
  "items (removeItem productId w) = filter (\<lambda>item. id' item \<noteq> productId) (items w)"
  "PRODUCTS (removeItem productId w) = PRODUCTS w"
  "network (removeItem productId w) = network w"
  "localStorage (removeItem productId w) =
     (localStorage w)(''cart'' \<mapsto> cart_text (removeItem productId w))"
  "journal (removeItem productId w) =
     journal w @ [StorageSet ''cart'' (cart_text (removeItem productId w)),
                  Rendered (document (removeItem productId w))]"
  by (simp_all add: removeItem_def commit_fields cart_text_def)

lemma removeItem_document:
  "document (removeItem productId w) =
     document (updateCartUI (w\<lparr>items := filter (\<lambda>item. id' item \<noteq> productId) (items w)\<rparr>))"
  by (simp add: removeItem_def commit_fields)

lemma filter_absent: "productId \<notin> set (map id' ls) \<Longrightarrow> filter (\<lambda>item. id' item \<noteq> productId) ls = ls"
  by (induction ls) auto

lemma updateQuantity_present:
  assumes "find (\<lambda>item. id' item = productId) (items w) = Some l"
  shows "updateQuantity productId qty w =
     (if qty \<le> 0 then removeItem productId w
      else updateCartUI (saveToStorage
             (w\<lparr>items := update_first (\<lambda>item. id' item = productId)
                            (\<lambda>item. item\<lparr>quantity := qty\<rparr>) (items w)\<rparr>)))"
  using assms by (simp add: updateQuantity_def)

text \<open>
  C4. On a cart that has a line for the identifier, \<^verbatim>\<open>updateQuantity\<close> with a quantity of
  zero or less removes every line of that identifier, and with a positive quantity sets
  the quantity of the first line of that identifier to it, whatever its size: the ledger
  knows no upper bound, eleven is accepted like any other.
\<close>

theorem updateQuantity_sets_or_removes:
  "productId \<in> set (map id' (items w)) \<longrightarrow>
     (qty \<le> 0 \<longrightarrow>
        items (updateQuantity productId qty w) = filter (\<lambda>item. id' item \<noteq> productId) (items w)
        \<and> productId \<notin> set (map id' (items (updateQuantity productId qty w))))
     \<and> (0 < qty \<longrightarrow>
          (\<exists>before l after. items w = before @ l # after \<and> id' l = productId
             \<and> productId \<notin> set (map id' before)
             \<and> items (updateQuantity productId qty w) = before @ l\<lparr>quantity := qty\<rparr> # after))"
proof (intro impI conjI)
  assume present: "productId \<in> set (map id' (items w))"
  from first_line_split [OF present, of "\<lambda>item. item\<lparr>quantity := qty\<rparr>"]
  obtain before l after where split:
    "items w = before @ l # after" "id' l = productId" "productId \<notin> set (map id' before)"
    "find (\<lambda>item. id' item = productId) (items w) = Some l"
    "update_first (\<lambda>item. id' item = productId) (\<lambda>item. item\<lparr>quantity := qty\<rparr>) (items w)
       = before @ l\<lparr>quantity := qty\<rparr> # after"
    by blast
  note uq = updateQuantity_present [OF split(4), of qty]
  {
    assume "qty \<le> 0"
    then show "items (updateQuantity productId qty w) = filter (\<lambda>item. id' item \<noteq> productId) (items w)"
      by (simp add: uq removeItem_fields)
    then show "productId \<notin> set (map id' (items (updateQuantity productId qty w)))"
      by auto
  next
    assume "0 < qty"
    then have "items (updateQuantity productId qty w) = before @ l\<lparr>quantity := qty\<rparr> # after"
      by (simp add: uq commit_fields split(5))
    with split show "\<exists>before l after. items w = before @ l # after \<and> id' l = productId
             \<and> productId \<notin> set (map id' before)
             \<and> items (updateQuantity productId qty w) = before @ l\<lparr>quantity := qty\<rparr> # after"
      by (intro exI [of _ before] exI [of _ l] exI [of _ after]) simp
  }
qed

theorem updateQuantity_sets_or_removes_witness:
  "''sku-1'' \<in> set (map id' (items scenario_two))
   \<and> items (updateQuantity ''sku-1'' 0 scenario_two) = []
   \<and> items (updateQuantity ''sku-1'' (- 5) scenario_two) = []
   \<and> map quantity (items (updateQuantity ''sku-1'' 11 scenario_two)) = [11]"
proof -
  have present: "''sku-1'' \<in> set (map id' (items scenario_two))"
    by (simp add: scenario_two_fields)
  from updateQuantity_sets_or_removes [of "''sku-1''" scenario_two 0] present
  have zero: "items (updateQuantity ''sku-1'' 0 scenario_two) = []"
    by (simp add: scenario_two_fields)
  from updateQuantity_sets_or_removes [of "''sku-1''" scenario_two "- 5"] present
  have minus: "items (updateQuantity ''sku-1'' (- 5) scenario_two) = []"
    by (simp add: scenario_two_fields)
  from updateQuantity_sets_or_removes [of "''sku-1''" scenario_two 11] present
  obtain before l after where
    "items scenario_two = before @ l # after"
    "items (updateQuantity ''sku-1'' 11 scenario_two) = before @ l\<lparr>quantity := 11\<rparr> # after"
    by auto
  then have "map quantity (items (updateQuantity ''sku-1'' 11 scenario_two)) = [11]"
    by (cases before) (simp_all add: scenario_two_fields)
  with present zero minus show ?thesis by simp
qed

text \<open>
  C5. \<^verbatim>\<open>removeItem\<close> is a total function: it removes the lines of the identifier, and
  leaves the lines as they are when there is none. A second call in a row changes neither
  the lines nor the storage; it writes the same text and projects the same cart again.
\<close>

theorem removeItem_idempotent:
  "productId \<notin> set (map id' (items (removeItem productId w)))
   \<and> (productId \<notin> set (map id' (items w)) \<longrightarrow> items (removeItem productId w) = items w)
   \<and> items (removeItem productId (removeItem productId w)) = items (removeItem productId w)
   \<and> localStorage (removeItem productId (removeItem productId w)) = localStorage (removeItem productId w)
   \<and> document (removeItem productId (removeItem productId w)) = document (removeItem productId w)
   \<and> PRODUCTS (removeItem productId (removeItem productId w)) = PRODUCTS (removeItem productId w)
   \<and> network (removeItem productId (removeItem productId w)) = network (removeItem productId w)
   \<and> (\<exists>evs. journal (removeItem productId w) = journal w @ evs
         \<and> journal (removeItem productId (removeItem productId w)) = journal (removeItem productId w) @ evs)"
proof -
  let ?w1 = "removeItem productId w" and ?w2 = "removeItem productId (removeItem productId w)"
  let ?keep = "\<lambda>item. id' item \<noteq> productId"
  have absent: "productId \<notin> set (map id' (items ?w1))"
    by (auto simp: removeItem_fields)
  have same: "items ?w2 = items ?w1"
    using absent by (simp add: removeItem_fields(1) [of productId ?w1] filter_absent)
  then have same_text: "cart_text ?w2 = cart_text ?w1"
    by (simp add: cart_text_def)
  have store: "localStorage ?w2 = localStorage ?w1"
    by (simp add: removeItem_fields(4) [of productId ?w1] same_text) (simp add: removeItem_fields(4) [of productId w])
  have page: "document ?w2 = document ?w1"
  proof -
    have "document ?w2 = document (updateCartUI (?w1\<lparr>items := filter ?keep (items ?w1)\<rparr>))"
      by (rule removeItem_document)
    also have "\<dots> = document (updateCartUI (w\<lparr>items := filter ?keep (items w)\<rparr>))"
      by (rule render_twice) (simp_all add: removeItem_fields(1) removeItem_document)
    also have "\<dots> = document ?w1"
      by (simp add: removeItem_document)
    finally show ?thesis .
  qed
  have j1: "journal ?w1 = journal w @ [StorageSet ''cart'' (cart_text ?w1), Rendered (document ?w1)]"
    by (rule removeItem_fields)
  have j2: "journal ?w2 = journal ?w1 @ [StorageSet ''cart'' (cart_text ?w1), Rendered (document ?w1)]"
    using removeItem_fields(5) [of productId ?w1] by (simp only: same_text page)
  show ?thesis
    using absent same store page j1 j2
    by (simp add: removeItem_fields(2,3) filter_absent removeItem_fields(1) [of productId w])
qed

theorem removeItem_idempotent_witness:
  "''ghost'' \<notin> set (map id' (items scenario_two))
   \<and> items (removeItem ''ghost'' scenario_two) = items scenario_two
   \<and> items (removeItem ''sku-1'' (removeItem ''sku-1'' scenario_two)) = []"
  using removeItem_idempotent [of "''ghost''" scenario_two] removeItem_idempotent [of "''sku-1''" scenario_two]
  by (simp add: scenario_two_fields removeItem_fields)

text \<open>
  C10. On a cart without a line for the identifier, \<^verbatim>\<open>updateQuantity\<close> returns the world
  it was given, for every quantity: the same lines, the same storage, nothing written to
  the journal (no storage write, no projection, no message), nothing sent.
\<close>

theorem updateQuantity_absent_noop:
  "productId \<notin> set (map id' (items w)) \<longrightarrow> updateQuantity productId qty w = w"
  by (simp add: updateQuantity_def find_id_None)

theorem updateQuantity_absent_noop_witness:
  "''ghost'' \<notin> set (map id' (items scenario_two))
   \<and> updateQuantity ''ghost'' 3 scenario_two = scenario_two
   \<and> updateQuantity ''ghost'' (- 1) scenario_two = scenario_two"
  using updateQuantity_absent_noop [of "''ghost''" scenario_two 3]
    updateQuantity_absent_noop [of "''ghost''" scenario_two "- 1"]
  by (simp add: scenario_two_fields)


section \<open>One line per product\<close>

lemma find_holds: "find P xs = Some x \<Longrightarrow> P x"
  by (auto simp: find_Some_iff)

lemma addItem_keeps_distinct:
  assumes r: "fst (resolveProduct e productId w) = Some p"
    and d: "distinct (map id' (items w))" "id' p = productId"
  shows "distinct (map id' (items (addItem e productId qty w)))"
proof (cases "find (\<lambda>item. id' item = productId) (items w)")
  case None
  then have "productId \<notin> set (map id' (items w))" by (auto simp: find_None_iff)
  with d None show ?thesis by (simp add: addItem_items [OF r])
next
  case (Some l)
  with d show ?thesis by (simp add: addItem_items [OF r] map_id_update_first)
qed

lemma removeItem_keeps_distinct:
  "distinct (map id' (items w)) \<Longrightarrow> distinct (map id' (items (removeItem productId w)))"
  by (simp add: removeItem_fields distinct_map_filter)

lemma updateQuantity_keeps_distinct:
  "distinct (map id' (items w)) \<Longrightarrow> distinct (map id' (items (updateQuantity productId qty w)))"
  by (auto simp: updateQuantity_def removeItem_fields distinct_map_filter commit_fields
      map_id_update_first split: option.splits)

lemma run_keeps_distinct:
  assumes faithful: "\<And>productId w p. fst (resolveProduct e productId w) = Some p \<Longrightarrow> id' p = productId"
    and d: "distinct (map id' (items w))"
  shows "distinct (map id' (items (run e ops w)))"
  using d unfolding run_def
proof (induction ops arbitrary: w)
  case Nil
  then show ?case by simp
next
  case (Cons op ops)
  have "distinct (map id' (items (step e w op)))"
  proof (cases op)
    case (AddItem productId qty)
    show ?thesis
    proof (cases "fst (resolveProduct e productId w)")
      case None
      have "quiet w (snd (resolveProduct e productId w))" by (rule quiet_resolveProduct)
      then show ?thesis
        using Cons.prems by (simp add: AddItem addItem_unresolved [OF None] console_def quiet_def)
    next
      case (Some p)
      with faithful have "id' p = productId" by blast
      with Some Cons.prems show ?thesis by (simp add: AddItem addItem_keeps_distinct)
    qed
  next
    case (RemoveItem productId)
    with Cons.prems show ?thesis by (simp add: removeItem_keeps_distinct)
  next
    case (UpdateQuantity productId qty)
    with Cons.prems show ?thesis by (simp add: updateQuantity_keeps_distinct)
  qed
  then show ?case using Cons.IH by simp
qed

lemma offline_faithful: "fst (resolveProduct offline productId w) = Some p \<Longrightarrow> id' p = productId"
  by (auto simp: resolveProduct_def getProductById_def offline_def split: option.splits dest: find_holds)

lemma catalog_reply:
  "server catalog h (make_config (''/products/'' @ i) options token) =
     Response 200 ''OK''
       (Some \<lparr>success = True, message = None,
              data = Some \<lparr>data_user = None, data_accessToken = None, data_refreshToken = None,
                           data_product = Some \<lparr>api_id = i, nombre = ''Anillo'', precio = 120,
                                                 imagenes = [], api_image = None\<rparr>\<rparr>\<rparr>)"
  by (simp add: catalog_def make_config_def)

lemma catalog_resolves:
  assumes none: "find (\<lambda>p. id' p = i) (PRODUCTS w) = None"
  shows "fst (resolveProduct catalog i w)
       = Some \<lparr>id' = i, name = ''Anillo'', price = 120, image' = ''assets/placeholder.jpg''\<rparr>"
proof -
  have ps: "productService catalog" by (simp add: catalog_def)
  note reply = catalog_reply [of _ i, simplified]
  from none ps show ?thesis
    by (simp add: resolveProduct_def getProductById_def productService_getProductById_def
        productService_apiRequest_def fetch_def console_def ok_def reply Let_def
        formatProductForFrontend_def getMainImage_def truthy_def)
qed

lemma catalog_faithful: "fst (resolveProduct catalog i w) = Some p \<Longrightarrow> id' p = i"
proof (cases "find (\<lambda>p. id' p = i) (PRODUCTS w)")
  case None
  assume "fst (resolveProduct catalog i w) = Some p"
  with catalog_resolves [OF None] show ?thesis by auto
next
  case (Some c)
  assume "fst (resolveProduct catalog i w) = Some p"
  with Some show ?thesis by (auto simp: resolveProduct_def dest: find_holds)
qed

lemma aliasing_resolves:
  "fst (resolveProduct aliasing ''collar'' scenario_two)
     = Some \<lparr>id' = ''sku-1'', name = ''Collar'', price = 250, image' = ''assets/c.jpg''\<rparr>"
  by (simp add: resolveProduct_def getProductById_def productService_getProductById_def
      productService_apiRequest_def fetch_def console_def ok_def aliasing_def Let_def
      scenario_two_fields formatProductForFrontend_def getMainImage_def truthy_def)

text \<open>
  C2, as stated, fails. The cart holds one line, two of sku-1. The backend knows that
  product under the name \<^verbatim>\<open>collar\<close> as well and answers with its record, whose identifier
  is sku-1. \<^verbatim>\<open>addItem('collar', 1)\<close> resolves; it looks for a line by the identifier it was
  asked for, finds none, and appends the record it got: the cart now holds two lines of
  sku-1, with quantities 2 and 1.
\<close>

theorem addItem_duplicates_identifier:
  "fst (resolveProduct aliasing ''collar'' scenario_two)
     = Some \<lparr>id' = ''sku-1'', name = ''Collar'', price = 250, image' = ''assets/c.jpg''\<rparr>
   \<and> map id' (items scenario_two) = [''sku-1'']
   \<and> map id' (items (addItem aliasing ''collar'' 1 scenario_two)) = [''sku-1'', ''sku-1'']
   \<and> map quantity (items (addItem aliasing ''collar'' 1 scenario_two)) = [2, 1]"
  by (simp add: aliasing_resolves addItem_items [OF aliasing_resolves] scenario_two_fields)

text \<open>
  C2. When the product resolves, \<^verbatim>\<open>addItem\<close> on an identifier already in the cart adds
  the quantity to the first line of that identifier and appends nothing; on an identifier
  not in the cart it appends one line, which carries the identifier of the resolved
  record. Lines with pairwise distinct identifiers therefore stay so whenever the resolved
  record carries the identifier that was asked for, as a record of the cache always does
  and a record of the backend need not; under that proviso no run of \<^verbatim>\<open>addItem\<close>,
  \<^verbatim>\<open>removeItem\<close> and \<^verbatim>\<open>updateQuantity\<close> from such a cart, the empty cart among them,
  leaves two lines of one identifier. \<^verbatim>\<open>addItem('sku-1', 2)\<close> then
  \<^verbatim>\<open>addItem('sku-1', 3)\<close> leaves exactly one line, for sku-1, with quantity 5.
\<close>

theorem addItem_upsert:
  "(fst (resolveProduct e productId w) = Some p \<longrightarrow>
      (productId \<in> set (map id' (items w)) \<longrightarrow>
         (\<exists>before l after. items w = before @ l # after \<and> id' l = productId
            \<and> productId \<notin> set (map id' before)
            \<and> items (addItem e productId qty w) = before @ l\<lparr>quantity := quantity l + qty\<rparr> # after))
    \<and> (productId \<notin> set (map id' (items w)) \<longrightarrow>
          items (addItem e productId qty w) =
            items w @ [\<lparr>id' = id' p, name = name p, price = price p, image' = image' p, quantity = qty\<rparr>])
    \<and> (distinct (map id' (items w)) \<and> id' p = productId \<longrightarrow>
          distinct (map id' (items (addItem e productId qty w)))))
   \<and> ((\<forall>i v r. fst (resolveProduct e i v) = Some r \<longrightarrow> id' r = i) \<and> distinct (map id' (items w)) \<longrightarrow>
        distinct (map id' (items (run e ops w))))
   \<and> map (\<lambda>l. (id' l, quantity l)) (items (run e [AddItem ''sku-1'' 2, AddItem ''sku-1'' 3] scenario_sku))
       = [(''sku-1'', 5)]"
proof (intro conjI impI)
  assume r: "fst (resolveProduct e productId w) = Some p"
  {
    assume present: "productId \<in> set (map id' (items w))"
    from first_line_split [OF present, of "\<lambda>item. item\<lparr>quantity := quantity item + qty\<rparr>"]
    obtain before l after where
      "items w = before @ l # after" "id' l = productId" "productId \<notin> set (map id' before)"
      "find (\<lambda>item. id' item = productId) (items w) = Some l"
      "update_first (\<lambda>item. id' item = productId) (\<lambda>item. item\<lparr>quantity := quantity item + qty\<rparr>)
         (items w) = before @ l\<lparr>quantity := quantity l + qty\<rparr> # after"
      by blast
    then show "\<exists>before l after. items w = before @ l # after \<and> id' l = productId
            \<and> productId \<notin> set (map id' before)
            \<and> items (addItem e productId qty w) = before @ l\<lparr>quantity := quantity l + qty\<rparr> # after"
      by (intro exI [of _ before] exI [of _ l] exI [of _ after]) (simp add: addItem_items [OF r])
  next
    assume "productId \<notin> set (map id' (items w))"
    then show "items (addItem e productId qty w) =
        items w @ [\<lparr>id' = id' p, name = name p, price = price p, image' = image' p, quantity = qty\<rparr>]"
      by (simp add: addItem_items [OF r] find_id_None)
  next
    assume "distinct (map id' (items w)) \<and> id' p = productId"
    then show "distinct (map id' (items (addItem e productId qty w)))"
      using r by (simp add: addItem_keeps_distinct)
  }
next
  assume "(\<forall>i v r. fst (resolveProduct e i v) = Some r \<longrightarrow> id' r = i) \<and> distinct (map id' (items w))"
  then show "distinct (map id' (items (run e ops w)))"
    by (intro run_keeps_distinct) blast+
next
  show "map (\<lambda>l. (id' l, quantity l)) (items (run e [AddItem ''sku-1'' 2, AddItem ''sku-1'' 3] scenario_sku))
       = [(''sku-1'', 5)]"
    by (simp add: scenario_sku_run)
qed

theorem addItem_upsert_witness:
  "fst (resolveProduct offline ''sku-1'' scenario_sku)
     = Some \<lparr>id' = ''sku-1'', name = ''Collar'', price = 250, image' = ''assets/c.jpg''\<rparr>
   \<and> ''sku-1'' \<notin> set (map id' (items scenario_sku))
   \<and> items (addItem offline ''sku-1'' 2 scenario_sku)
       = [\<lparr>id' = ''sku-1'', name = ''Collar'', price = 250, image' = ''assets/c.jpg'', quantity = 2\<rparr>]
   \<and> fst (resolveProduct offline ''sku-1'' (addItem offline ''sku-1'' 2 scenario_sku))
       = Some \<lparr>id' = ''sku-1'', name = ''Collar'', price = 250, image' = ''assets/c.jpg''\<rparr>
   \<and> ''sku-1'' \<in> set (map id' (items (addItem offline ''sku-1'' 2 scenario_sku)))
   \<and> distinct (map id' (items (addItem offline ''sku-1'' 2 scenario_sku)))
   \<and> distinct (map id' (items (addItem offline ''sku-1'' 3 (addItem offline ''sku-1'' 2 scenario_sku))))
   \<and> distinct (map id' (items (run offline [AddItem ''sku-1'' 2, RemoveItem ''sku-1'', AddItem ''sku-1'' 3]
          (addItem offline ''sku-1'' 2 scenario_sku))))
   \<and> (\<exists>before l after. items (addItem offline ''sku-1'' 2 scenario_sku) = before @ l # after
        \<and> id' l = ''sku-1'' \<and> ''sku-1'' \<notin> set (map id' before)
        \<and> items (addItem offline ''sku-1'' 3 (addItem offline ''sku-1'' 2 scenario_sku))
            = before @ l\<lparr>quantity := quantity l + 3\<rparr> # after)
   \<and> fst (resolveProduct catalog ''ring-7'' scenario_two)
       = Some \<lparr>id' = ''ring-7'', name = ''Anillo'', price = 120, image' = ''assets/placeholder.jpg''\<rparr>
   \<and> ''ring-7'' \<notin> set (map id' (items scenario_two))
   \<and> distinct (map id' (items scenario_two))
   \<and> items (addItem catalog ''ring-7'' 1 scenario_two)
       = [\<lparr>id' = ''sku-1'', name = ''Collar'', price = 250, image' = ''assets/c.jpg'', quantity = 2\<rparr>,
          \<lparr>id' = ''ring-7'', name = ''Anillo'', price = 120, image' = ''assets/placeholder.jpg'',
            quantity = 1\<rparr>]
   \<and> distinct (map id' (items (addItem catalog ''ring-7'' 1 scenario_two)))
   \<and> distinct (map id' (items (run catalog
          [AddItem ''ring-7'' 1, AddItem ''sku-1'' 1, AddItem ''ring-7'' 2, AddItem ''charm-3'' 4]
          scenario_two)))"
proof -
  let ?w = "addItem offline ''sku-1'' 2 scenario_sku"
  let ?p = "\<lparr>id' = ''sku-1'', name = ''Collar'', price = 250, image' = ''assets/c.jpg''\<rparr>"
  let ?q = "\<lparr>id' = ''ring-7'', name = ''Anillo'', price = 120, image' = ''assets/placeholder.jpg''\<rparr>"
  have r0: "fst (resolveProduct offline ''sku-1'' scenario_sku) = Some ?p"
    and empty: "items scenario_sku = []"
    by (simp_all add: resolveProduct_def scenario_sku_def)
  from addItem_upsert [of offline "''sku-1''" scenario_sku ?p 2] r0 empty
  have w: "items ?w = [\<lparr>id' = ''sku-1'', name = ''Collar'', price = 250, image' = ''assets/c.jpg'', quantity = 2\<rparr>]"
    by simp
  have cache: "PRODUCTS ?w = [?p]"
    by (simp add: scenario_sku_def addItem_def resolveProduct_def updateCartUI_def
        saveToStorage_def localStorage_setItem_def Let_def)
  have r: "fst (resolveProduct offline ''sku-1'' ?w) = Some ?p"
    by (simp add: resolveProduct_def cache)
  have faithful: "\<forall>i v r. fst (resolveProduct offline i v) = Some r \<longrightarrow> id' r = i"
    using offline_faithful by blast
  from addItem_upsert [of offline "''sku-1''" ?w ?p 3 "[AddItem ''sku-1'' 2, RemoveItem ''sku-1'', AddItem ''sku-1'' 3]"]
    r r0 empty w faithful
  have local: "fst (resolveProduct offline ''sku-1'' scenario_sku) = Some ?p
   \<and> ''sku-1'' \<notin> set (map id' (items scenario_sku))
   \<and> items ?w = [\<lparr>id' = ''sku-1'', name = ''Collar'', price = 250, image' = ''assets/c.jpg'', quantity = 2\<rparr>]
   \<and> fst (resolveProduct offline ''sku-1'' ?w) = Some ?p
   \<and> ''sku-1'' \<in> set (map id' (items ?w))
   \<and> distinct (map id' (items ?w))
   \<and> distinct (map id' (items (addItem offline ''sku-1'' 3 ?w)))
   \<and> distinct (map id' (items (run offline [AddItem ''sku-1'' 2, RemoveItem ''sku-1'', AddItem ''sku-1'' 3] ?w)))
   \<and> (\<exists>before l after. items ?w = before @ l # after
        \<and> id' l = ''sku-1'' \<and> ''sku-1'' \<notin> set (map id' before)
        \<and> items (addItem offline ''sku-1'' 3 ?w) = before @ l\<lparr>quantity := quantity l + 3\<rparr> # after)"
    by simp
  have q: "fst (resolveProduct catalog ''ring-7'' scenario_two) = Some ?q"
    by (rule catalog_resolves) (simp add: scenario_two_fields)
  have honest: "\<forall>i v r. fst (resolveProduct catalog i v) = Some r \<longrightarrow> id' r = i"
    using catalog_faithful by blast
  from addItem_upsert [of catalog "''ring-7''" scenario_two ?q 1
      "[AddItem ''ring-7'' 1, AddItem ''sku-1'' 1, AddItem ''ring-7'' 2, AddItem ''charm-3'' 4]"]
    q honest
  have remote: "fst (resolveProduct catalog ''ring-7'' scenario_two) = Some ?q
   \<and> ''ring-7'' \<notin> set (map id' (items scenario_two))
   \<and> distinct (map id' (items scenario_two))
   \<and> items (addItem catalog ''ring-7'' 1 scenario_two)
       = [\<lparr>id' = ''sku-1'', name = ''Collar'', price = 250, image' = ''assets/c.jpg'', quantity = 2\<rparr>,
          \<lparr>id' = ''ring-7'', name = ''Anillo'', price = 120, image' = ''assets/placeholder.jpg'',
            quantity = 1\<rparr>]
   \<and> distinct (map id' (items (addItem catalog ''ring-7'' 1 scenario_two)))
   \<and> distinct (map id' (items (run catalog
          [AddItem ''ring-7'' 1, AddItem ''sku-1'' 1, AddItem ''ring-7'' 2, AddItem ''charm-3'' 4]
          scenario_two)))"
    by (simp add: scenario_two_fields)
  from local remote show ?thesis by (elim conjE) (intro conjI; assumption)
qed

section \<open>Failed resolution\<close>


lemma productService_apiRequest_result:
  "fst (productService_apiRequest e endpoint options w) =
     (case server e (network w) (make_config endpoint options (localStorage w ''accessToken'')) of
        NetworkFailure \<Rightarrow> Inl TypeError
      | Response status statusText rbody \<Rightarrow>
          if \<not> ok status then
            Inl (Error (case rbody of
                          None \<Rightarrow> ''Error '' @ show_nat status @ '': '' @ statusText
                        | Some b \<Rightarrow> message_or b (''Error '' @ show_nat status @ '': '' @ statusText)))
          else (case rbody of None \<Rightarrow> Inl SyntaxError | Some b \<Rightarrow> Inr b))"
  by (simp add: productService_apiRequest_def Let_def case_prod_beta fetch_def console_def
      split: fetch_result.splits option.splits)

lemma resolution_fails_iff:
  "fst (resolveProduct e productId w) = None \<longleftrightarrow> resolution_fails e productId w"
proof (cases "find (\<lambda>p. id' p = productId) (PRODUCTS w)")
  case (Some p)
  then show ?thesis by (simp add: resolveProduct_def resolution_fails_def)
next
  case None
  show ?thesis
  proof (cases "productService e")
    case False
    with None show ?thesis
      by (simp add: resolveProduct_def resolution_fails_def getProductById_def)
  next
    case True
    with None show ?thesis
      by (simp add: resolveProduct_def resolution_fails_def getProductById_def
          productService_getProductById_def Let_def case_prod_beta productService_apiRequest_result
          split: fetch_result.splits option.splits sum.splits)
  qed
qed

text \<open>
  C6. Resolution fails exactly when the cache has no product of the identifier and the
  remote lookup gives none (service not loaded, request rejected, status not ok, body not
  JSON, no success, no product). Then \<^verbatim>\<open>addItem\<close> leaves the lines, the storage, the
  cache and the page as they are, writes nothing and projects nothing, and its last act is the warning
  \<^verbatim>\<open>Producto no encontrado\<close>. It is a total function: every fault of the lookup is
  caught on the way and none reaches the caller.
\<close>

theorem addItem_unresolved_noop:
  "(fst (resolveProduct e productId w) = None \<longleftrightarrow> resolution_fails e productId w)
   \<and> (resolution_fails e productId w \<longrightarrow>
        items (addItem e productId qty w) = items w
        \<and> localStorage (addItem e productId qty w) = localStorage w
        \<and> PRODUCTS (addItem e productId qty w) = PRODUCTS w
        \<and> document (addItem e productId qty w) = document w
        \<and> (\<exists>evs. journal (addItem e productId qty w)
                    = journal w @ evs @ [Console WARN (''Producto no encontrado: '' @ productId)]
               \<and> filter is_commit evs = []))"
proof (intro conjI impI)
  show "fst (resolveProduct e productId w) = None \<longleftrightarrow> resolution_fails e productId w"
    by (rule resolution_fails_iff)
  assume "resolution_fails e productId w"
  then have none: "fst (resolveProduct e productId w) = None" by (simp add: resolution_fails_iff)
  let ?w1 = "snd (resolveProduct e productId w)"
  have q: "quiet w ?w1" by (rule quiet_resolveProduct)
  then obtain evs where evs: "journal ?w1 = journal w @ evs" "filter is_commit evs = []"
    by (auto simp: quiet_def)
  show "items (addItem e productId qty w) = items w"
    and "localStorage (addItem e productId qty w) = localStorage w"
    and "PRODUCTS (addItem e productId qty w) = PRODUCTS w"
    and "document (addItem e productId qty w) = document w"
    using q by (simp_all add: addItem_unresolved [OF none] console_def quiet_def)
  show "\<exists>evs. journal (addItem e productId qty w)
                    = journal w @ evs @ [Console WARN (''Producto no encontrado: '' @ productId)]
               \<and> filter is_commit evs = []"
    using evs by (intro exI [of _ evs]) (simp add: addItem_unresolved [OF none] console_def)
qed

theorem addItem_unresolved_noop_witness:
  "resolution_fails empty_catalog ''ghost'' scenario_two
   \<and> resolution_fails unreachable ''ghost'' scenario_two
   \<and> items (addItem empty_catalog ''ghost'' 1 scenario_two) = items scenario_two
   \<and> items (addItem unreachable ''ghost'' 1 scenario_two) = items scenario_two
   \<and> localStorage (addItem empty_catalog ''ghost'' 1 scenario_two) = localStorage scenario_two
   \<and> last (journal (addItem empty_catalog ''ghost'' 1 scenario_two))
       = Console WARN ''Producto no encontrado: ghost''
   \<and> last (journal (addItem unreachable ''ghost'' 1 scenario_two))
       = Console WARN ''Producto no encontrado: ghost''"
proof -
  have f1: "resolution_fails empty_catalog ''ghost'' scenario_two"
    and f2: "resolution_fails unreachable ''ghost'' scenario_two"
    by (simp_all add: resolution_fails_def empty_catalog_def unreachable_def scenario_two_fields ok_def)
  from addItem_unresolved_noop [of empty_catalog "''ghost''" scenario_two 1] f1
  have a: "items (addItem empty_catalog ''ghost'' 1 scenario_two) = items scenario_two"
    "localStorage (addItem empty_catalog ''ghost'' 1 scenario_two) = localStorage scenario_two"
    "last (journal (addItem empty_catalog ''ghost'' 1 scenario_two)) = Console WARN ''Producto no encontrado: ghost''"
    by auto
  from addItem_unresolved_noop [of unreachable "''ghost''" scenario_two 1] f2
  have b: "items (addItem unreachable ''ghost'' 1 scenario_two) = items scenario_two"
    "last (journal (addItem unreachable ''ghost'' 1 scenario_two)) = Console WARN ''Producto no encontrado: ghost''"
    by auto
  from f1 f2 a b show ?thesis by simp
qed


section \<open>Persisting and projecting once\<close>

lemma drop_journal: "journal w' = journal w @ evs \<Longrightarrow> drop (length (journal w)) (journal w') = evs"
  by simp

lemma commit_after_quiet:
  assumes j: "journal w1 = journal w @ evs" and q: "filter is_commit evs = []"
  shows "journal (updateCartUI (saveToStorage w1)) = journal w @ drop (length (journal w)) (journal (updateCartUI (saveToStorage w1)))
    \<and> filter is_commit (drop (length (journal w)) (journal (updateCartUI (saveToStorage w1))))
        = [StorageSet ''cart'' (cart_text (updateCartUI (saveToStorage w1))),
           Rendered (document (updateCartUI (saveToStorage w1)))]
    \<and> localStorage (updateCartUI (saveToStorage w1)) ''cart'' = Some (cart_text (updateCartUI (saveToStorage w1)))"
proof -
  let ?w' = "updateCartUI (saveToStorage w1)"
  have i: "items ?w' = items w1" by (simp add: commit_fields)
  have jj: "journal ?w' = journal w @ (evs @ [StorageSet ''cart'' (cart_text ?w'), Rendered (document ?w')])"
    by (simp add: commit_fields(5,6) j cart_text_cong [OF i])
  have d: "drop (length (journal w)) (journal ?w') = evs @ [StorageSet ''cart'' (cart_text ?w'),
      Rendered (document ?w')]"
    by (rule drop_journal [OF jj])
  have s: "localStorage ?w' ''cart'' = Some (cart_text ?w')"
    by (simp add: commit_fields(4) cart_text_cong [OF i])
  show ?thesis
    unfolding d using jj q s by (simp add: is_commit_def)
qed

lemma step_commits:
  assumes "reaches_mutation e w op"
  shows "\<exists>w1 evs. step e w op = updateCartUI (saveToStorage w1) \<and> journal w1 = journal w @ evs
           \<and> filter is_commit evs = [] \<and> document w1 = document w"
proof (cases op)
  case (AddItem productId qty)
  with assms obtain p where r: "fst (resolveProduct e productId w) = Some p"
    by (auto simp: reaches_mutation_def)
  from quiet_resolveProduct [of w e productId] obtain evs where
    "journal (snd (resolveProduct e productId w)) = journal w @ evs" "filter is_commit evs = []"
    "document (snd (resolveProduct e productId w)) = document w"
    by (auto simp: quiet_def)
  then show ?thesis
    unfolding AddItem step.simps addItem_resolved [OF r]
    by (intro exI [of _ "(snd (resolveProduct e productId w))\<lparr>items := _\<rparr>"] exI [of _ evs]) simp
next
  case (RemoveItem productId)
  show ?thesis
    unfolding RemoveItem step.simps removeItem_def
    by (intro exI [of _ "w\<lparr>items := _\<rparr>"] exI [of _ "[]"]) simp
next
  case (UpdateQuantity productId qty)
  with assms obtain l where l: "find (\<lambda>item. id' item = productId) (items w) = Some l"
    by (auto simp: reaches_mutation_def)
  show ?thesis
  proof (cases "qty \<le> 0")
    case True
    then show ?thesis
      unfolding UpdateQuantity step.simps updateQuantity_present [OF l] removeItem_def
      by (intro exI [of _ "w\<lparr>items := filter (\<lambda>item. id' item \<noteq> productId) (items w)\<rparr>"] exI [of _ "[]"]) simp
  next
    case False
    then show ?thesis
      unfolding UpdateQuantity step.simps updateQuantity_present [OF l]
      by (intro exI [of _ "w\<lparr>items := update_first (\<lambda>item. id' item = productId) (\<lambda>item. item\<lparr>quantity := qty\<rparr>) (items w)\<rparr>"] exI [of _ "[]"]) simp
  qed
qed

lemma step_skips:
  assumes "\<not> reaches_mutation e w op"
  shows "items (step e w op) = items w \<and> localStorage (step e w op) = localStorage w
    \<and> document (step e w op) = document w
    \<and> (\<exists>evs. journal (step e w op) = journal w @ evs \<and> filter is_commit evs = [])"
proof (cases op)
  case (AddItem productId qty)
  with assms have none: "fst (resolveProduct e productId w) = None"
    by (simp add: reaches_mutation_def)
  from quiet_resolveProduct [of w e productId] obtain evs where
    "journal (snd (resolveProduct e productId w)) = journal w @ evs" "filter is_commit evs = []"
    and "items (snd (resolveProduct e productId w)) = items w"
    and "localStorage (snd (resolveProduct e productId w)) = localStorage w"
    and "document (snd (resolveProduct e productId w)) = document w"
    by (auto simp: quiet_def)
  then show ?thesis
    unfolding AddItem step.simps addItem_unresolved [OF none]
    by (simp add: console_def is_commit_def)
next
  case (RemoveItem productId)
  with assms show ?thesis by (simp add: reaches_mutation_def)
next
  case (UpdateQuantity productId qty)
  with assms show ?thesis by (simp add: reaches_mutation_def updateQuantity_def)
qed

text \<open>
  What every operation does to storage and page. One that reaches its mutation writes
  the full line list exactly once and calls \<^verbatim>\<open>updateCartUI\<close> exactly once, in this order;
  the stored text is the text of the new lines and the count on the cart buttons the new
  count. On a page with the cart panel, a cart that is not empty afterwards is shown with
  its new lines and its new total; a cart that is empty afterwards gets the empty notice,
  and its list and total are left as they were. An operation that does not reach its
  mutation leaves lines, storage and page untouched and neither writes nor projects.
\<close>

lemma mutation_commits_once:
  "journal (step e w op) = journal w @ drop (length (journal w)) (journal (step e w op))
   \<and> (if reaches_mutation e w op
      then filter is_commit (drop (length (journal w)) (journal (step e w op)))
             = [StorageSet ''cart'' (cart_text (step e w op)), Rendered (document (step e w op))]
           \<and> localStorage (step e w op) ''cart'' = Some (cart_text (step e w op))
           \<and> data_count (document (step e w op)) = getItemCount (step e w op)
           \<and> (cart_panel (document w) \<and> items (step e w op) \<noteq> [] \<longrightarrow>
                cartItems_innerHTML (document (step e w op)) = items (step e w op)
                \<and> cartTotal_textContent (document (step e w op)) = getTotal (step e w op)
                \<and> cartItems_display (document (step e w op)) = display_block
                \<and> cartEmpty_display (document (step e w op)) = display_none
                \<and> \<not> cartCheckout_disabled (document (step e w op)))
           \<and> (cart_panel (document w) \<and> items (step e w op) = [] \<longrightarrow>
                cartItems_display (document (step e w op)) = display_none
                \<and> cartEmpty_display (document (step e w op)) = display_block
                \<and> cartCheckout_disabled (document (step e w op))
                \<and> cartItems_innerHTML (document (step e w op)) = cartItems_innerHTML (document w)
                \<and> cartTotal_textContent (document (step e w op)) = cartTotal_textContent (document w))
      else filter is_commit (drop (length (journal w)) (journal (step e w op))) = []
           \<and> items (step e w op) = items w
           \<and> localStorage (step e w op) = localStorage w
           \<and> document (step e w op) = document w)"
proof (cases "reaches_mutation e w op")
  case True
  from step_commits [OF True] obtain w1 evs where w1:
    "step e w op = updateCartUI (saveToStorage w1)" "journal w1 = journal w @ evs"
    "filter is_commit evs = []" "document w1 = document w" by blast
  let ?w' = "updateCartUI (saveToStorage w1)"
  have i: "items ?w' = items w1" and page: "document ?w' = document (updateCartUI w1)"
    by (simp_all add: commit_fields)
  have count: "data_count (document ?w') = getItemCount ?w'"
    by (simp add: page render_count getters_cong [OF i])
  have full: "cart_panel (document w) \<and> items ?w' \<noteq> [] \<longrightarrow>
                cartItems_innerHTML (document ?w') = items ?w'
                \<and> cartTotal_textContent (document ?w') = getTotal ?w'
                \<and> cartItems_display (document ?w') = display_block
                \<and> cartEmpty_display (document ?w') = display_none
                \<and> \<not> cartCheckout_disabled (document ?w')"
    using w1(4) by (simp add: page i render_nonempty getters_cong [OF i])
  have emptied: "cart_panel (document w) \<and> items ?w' = [] \<longrightarrow>
                cartItems_display (document ?w') = display_none
                \<and> cartEmpty_display (document ?w') = display_block
                \<and> cartCheckout_disabled (document ?w')
                \<and> cartItems_innerHTML (document ?w') = cartItems_innerHTML (document w)
                \<and> cartTotal_textContent (document ?w') = cartTotal_textContent (document w)"
    using w1(4) by (simp add: page i render_empty)
  from commit_after_quiet [of w1 w evs] w1 True count full emptied show ?thesis by simp
next
  case False
  from step_skips [OF False] obtain evs where
    "items (step e w op) = items w" "localStorage (step e w op) = localStorage w"
    "document (step e w op) = document w"
    "journal (step e w op) = journal w @ evs" "filter is_commit evs = []" by blast
  with False show ?thesis by simp
qed

text \<open>
  C7. Every operation that mutates the cart is to persist the lines and to project the
  new state once, with nothing stale left on the page. Persisting once and projecting once
  hold (lemma \<open>mutation_commits_once\<close>), and a cart that is not empty is shown as it is.
  Removing the last line is the case \<^verbatim>\<open>updateCartUI\<close> misses: on the cart that holds two
  of sku-1 at 250, \<^verbatim>\<open>removeItem('sku-1')\<close> leaves no line and a total of 0, the stored
  text is \<^verbatim>\<open>[]\<close> and the count on the buttons 0, but \<^verbatim>\<open>#cartTotal\<close> still reads 500 and
  \<^verbatim>\<open>#cartItems\<close> still holds the removed line.
\<close>

theorem emptied_cart_keeps_total:
  "items (removeItem ''sku-1'' scenario_two) = []
   \<and> getTotal (removeItem ''sku-1'' scenario_two) = 0
   \<and> localStorage (removeItem ''sku-1'' scenario_two) ''cart'' = Some ''[]''
   \<and> data_count (document (removeItem ''sku-1'' scenario_two)) = 0
   \<and> cart_panel (document (removeItem ''sku-1'' scenario_two))
   \<and> cartTotal_textContent (document (removeItem ''sku-1'' scenario_two)) = 500
   \<and> cartItems_innerHTML (document (removeItem ''sku-1'' scenario_two))
       = [\<lparr>id' = ''sku-1'', name = ''Collar'', price = 250, image' = ''assets/c.jpg'', quantity = 2\<rparr>]"
  by (simp add: removeItem_fields removeItem_document scenario_two_fields render_empty
      getTotal_def cart_text_def)

section \<open>Constructing the cart\<close>

lemma loadFromStorage_fallback:
  "\<not> truthy (localStorage w ''cart'') \<or> JSON_parse (the (localStorage w ''cart'')) = None
     \<Longrightarrow> loadFromStorage w = JArr []"
proof -
  have empty: "JSON_parse ''[]'' = Some (JArr [])"
    by (simp add: JSON_parse_def skip_ws_def is_ws_def)
  assume "\<not> truthy (localStorage w ''cart'') \<or> JSON_parse (the (localStorage w ''cart'')) = None"
  then show ?thesis by (auto simp: loadFromStorage_def empty)
qed

lemma Cart_constructor_fallback:
  "\<not> truthy (localStorage w ''cart'') \<or> JSON_parse (the (localStorage w ''cart'')) = None
     \<Longrightarrow> Cart_constructor w = Returned (updateCartUI (w\<lparr>items := []\<rparr>))"
  by (simp add: Cart_constructor_def loadFromStorage_fallback)

text \<open>
  C9. The constructor is to start the cart in a valid state whatever the \<^verbatim>\<open>cart\<close> key
  holds. It does when the key is absent, empty or not JSON (the two lemmas above). It does
  not when the key holds the JSON text \<^verbatim>\<open>null\<close>: \<^verbatim>\<open>loadFromStorage\<close> returns
  \<^verbatim>\<open>null\<close>, and \<^verbatim>\<open>updateCartUI\<close> throws a TypeError out of the constructor.
\<close>

theorem Cart_constructor_throws_on_null:
  "Cart_constructor (w\<lparr>localStorage := (localStorage w)(''cart'' \<mapsto> ''null'')\<rparr>) = Threw TypeError"
proof -
  have "JSON_parse ''null'' = Some JNull"
    by (simp add: JSON_parse_def skip_ws_def is_ws_def strip_def)
  then show ?thesis by (simp add: Cart_constructor_def loadFromStorage_def truthy_def)
qed


section \<open>The expired session\<close>


lemma refreshToken_network:
  "network (snd (refreshToken e w)) =
     network w @ (if truthy (localStorage w ''refreshToken'')
                  then [refresh_request (the (localStorage w ''refreshToken''))] else [])"
  by (simp add: refreshToken_def refresh_request_def Let_def case_prod_beta fetch_def console_def
      localStorage_setItem_def split: fetch_result.splits option.splits)

lemma refreshToken_storage:
  "localStorage (snd (refreshToken e w)) =
     (if fst (refreshToken e w)
      then (localStorage w)(''accessToken'' \<mapsto> the (localStorage (snd (refreshToken e w)) ''accessToken''))
      else localStorage w)"
  by (simp add: refreshToken_def Let_def case_prod_beta fetch_def console_def
      localStorage_setItem_def split: fetch_result.splits option.splits)

lemma refreshToken_failed:
  "\<not> fst (refreshToken e w) \<Longrightarrow> localStorage (snd (refreshToken e w)) = localStorage w"
  by (subst refreshToken_storage) simp

lemma refreshToken_token:
  "fst (refreshToken e w) \<Longrightarrow> localStorage (snd (refreshToken e w)) ''accessToken'' \<noteq> None"
  by (subst refreshToken_storage) simp

lemma make_config_url: "url (make_config endpoint options token) = API_BASE_URL @ endpoint"
  by (simp add: make_config_def)

lemma apiRequest_401:
  assumes "truthy (localStorage w ''accessToken'')"
    and "server e (network w) (make_config endpoint options (localStorage w ''accessToken''))
           = Response 401 statusText (Some d)"
  shows "apiRequest e endpoint options w =
    (let config = make_config endpoint options (localStorage w ''accessToken'');
         w2 = snd (refreshToken e (w\<lparr>network := network w @ [config]\<rparr>))
     in if fst (refreshToken e (w\<lparr>network := network w @ [config]\<rparr>)) then
          (let config' = config\<lparr>authorization :=
                 Some (''Bearer '' @ the (localStorage w2 ''accessToken''))\<rparr>;
               w3 = w2\<lparr>network := network w2 @ [config']\<rparr>
           in case server e (network w2) config' of
                NetworkFailure \<Rightarrow> (Inl TypeError, console ERROR ''Error en API request:'' w3)
              | Response retryStatus retryText retryBody \<Rightarrow>
                  (case retryBody of
                     None \<Rightarrow> (Inl SyntaxError, console ERROR ''Error en API request:'' w3)
                   | Some retryData \<Rightarrow> (Inr retryData, w3)))
        else (Inl (Error (message_or d ''Error en la peticion'')),
              console ERROR ''Error en API request:'' w2))"
proof -
  let ?w1 = "w\<lparr>network := network w @ [make_config endpoint options (localStorage w ''accessToken'')]\<rparr>"
  have tok: "fst (refreshToken e ?w1) \<Longrightarrow>
      (case localStorage (snd (refreshToken e ?w1)) ''accessToken'' of Some t \<Rightarrow> t | None \<Rightarrow> ''null'')
        = the (localStorage (snd (refreshToken e ?w1)) ''accessToken'')"
    using refreshToken_token [of e ?w1] by (auto split: option.splits)
  show ?thesis
    using assms tok
    by (simp add: apiRequest_def apiRequest_settled_def fetch_def ok_def Let_def case_prod_beta
        split: fetch_result.splits option.splits)
qed

text \<open>
  What the refresh path does for a request that carried a token and is answered 401 with
  a JSON body: the requests sent are the original, the refresh request when a refresh
  token is stored, and one retry exactly when the refresh succeeded, whose answer is the
  result; after a failed refresh an Error is thrown and storage is as before.
\<close>

lemma apiRequest_refresh_path:
  assumes "truthy (localStorage w ''accessToken'')"
    and "server e (network w) (make_config endpoint options (localStorage w ''accessToken''))
           = Response 401 statusText (Some d)"
  defines "config \<equiv> make_config endpoint options (localStorage w ''accessToken'')"
  defines "w1 \<equiv> w\<lparr>network := network w @ [config]\<rparr>"
  defines "refreshed \<equiv> fst (refreshToken e w1)"
  defines "w2 \<equiv> snd (refreshToken e w1)"
  defines "retry \<equiv> config\<lparr>authorization := Some (''Bearer '' @ the (localStorage w2 ''accessToken''))\<rparr>"
  shows "network (snd (apiRequest e endpoint options w)) =
           network w @ [config]
             @ (if truthy (localStorage w ''refreshToken'')
                then [refresh_request (the (localStorage w ''refreshToken''))] else [])
             @ (if refreshed then [retry] else [])"
    and "refreshed \<Longrightarrow>
           fst (apiRequest e endpoint options w) =
             (case server e (network w2) retry of
                NetworkFailure \<Rightarrow> Inl TypeError
              | Response retryStatus retryText retryBody \<Rightarrow>
                  (case retryBody of None \<Rightarrow> Inl SyntaxError | Some retryData \<Rightarrow> Inr retryData))"
    and "\<not> refreshed \<Longrightarrow>
           fst (apiRequest e endpoint options w) = Inl (Error (message_or d ''Error en la peticion''))
           \<and> localStorage (snd (apiRequest e endpoint options w)) = localStorage w"
proof -
  note unfold = apiRequest_401 [OF assms(1,2)]
  have n2: "network w2 = network w @ [config]
               @ (if truthy (localStorage w ''refreshToken'')
                  then [refresh_request (the (localStorage w ''refreshToken''))] else [])"
    by (simp add: w2_def w1_def refreshToken_network)
  show "network (snd (apiRequest e endpoint options w)) =
           network w @ [config]
             @ (if truthy (localStorage w ''refreshToken'')
                then [refresh_request (the (localStorage w ''refreshToken''))] else [])
             @ (if refreshed then [retry] else [])"
    using n2
    by (simp add: unfold Let_def console_def config_def w1_def refreshed_def w2_def retry_def
        split: fetch_result.splits option.splits)
  show "refreshed \<Longrightarrow>
           fst (apiRequest e endpoint options w) =
             (case server e (network w2) retry of
                NetworkFailure \<Rightarrow> Inl TypeError
              | Response retryStatus retryText retryBody \<Rightarrow>
                  (case retryBody of None \<Rightarrow> Inl SyntaxError | Some retryData \<Rightarrow> Inr retryData))"
    by (simp add: unfold Let_def config_def w1_def refreshed_def w2_def retry_def
        split: fetch_result.splits option.splits)
  show "\<not> refreshed \<Longrightarrow>
           fst (apiRequest e endpoint options w) = Inl (Error (message_or d ''Error en la peticion''))
           \<and> localStorage (snd (apiRequest e endpoint options w)) = localStorage w"
    using refreshToken_failed [of e w1]
    by (simp add: unfold Let_def console_def config_def w1_def refreshed_def w2_def)
qed

text \<open>
  A reply whose body is not JSON never reaches the refresh: whatever its status,
  \<^verbatim>\<open>apiRequest\<close> sends that one request and throws the SyntaxError of
  \<^verbatim>\<open>response.json()\<close>.
\<close>

lemma apiRequest_not_json:
  assumes "server e (network w) (make_config endpoint options (localStorage w ''accessToken''))
             = Response status statusText None"
  shows "apiRequest e endpoint options w =
           (Inl SyntaxError,
            console ERROR ''Error en API request:''
              (w\<lparr>network := network w @ [make_config endpoint options (localStorage w ''accessToken'')]\<rparr>))"
  using assms by (simp add: apiRequest_def apiRequest_settled_def fetch_def Let_def)

lemma logout_split:
  "logout e w = logout_resumed e (fst (logout_called e w)) (snd (logout_called e w))"
  by (simp add: logout_def logout_resumed_def logout_called_def apiRequest_def Let_def case_prod_beta)

lemma logout_finally_storage:
  "localStorage (logout_finally rw) ''accessToken'' = None"
  "localStorage (logout_finally rw) ''refreshToken'' = None"
  "localStorage (logout_finally rw) ''currentUser'' = None"
  by (simp_all add: logout_finally_def Let_def case_prod_beta localStorage_removeItem_def)

lemma logout_called_storage: "localStorage (snd (logout_called e w)) = localStorage w"
  by (simp add: logout_called_def Let_def fetch_def)

lemma getCurrentUser_fault:
  "fst (apiRequest e ''/auth/me'' no_options w) = Inl err \<Longrightarrow>
     getCurrentUser e w =
       getCurrentUser_caught e (snd (apiRequest e ''/auth/me'' no_options w))"
  by (simp add: getCurrentUser_def case_prod_beta)

text \<open>
  When \<^verbatim>\<open>getCurrentUser\<close> returns after a fault, storage is as the failed request left
  it: the keys go only when the call of \<^verbatim>\<open>logout\<close> left in flight is resumed.
\<close>

lemma getCurrentUser_returns_before_logout:
  assumes "fst (apiRequest e ''/auth/me'' no_options w) = Inl err"
  shows "fst (getCurrentUser e w) = None"
    and "localStorage (fst (snd (getCurrentUser e w)))
           = localStorage (snd (apiRequest e ''/auth/me'' no_options w))"
    and "\<exists>call. snd (snd (getCurrentUser e w)) = Some call
           \<and> localStorage (logout_resumed e call (fst (snd (getCurrentUser e w)))) ''accessToken'' = None
           \<and> localStorage (logout_resumed e call (fst (snd (getCurrentUser e w)))) ''refreshToken'' = None
           \<and> localStorage (logout_resumed e call (fst (snd (getCurrentUser e w)))) ''currentUser'' = None"
  by (simp_all add: getCurrentUser_fault [OF assms] getCurrentUser_caught_def case_prod_beta
      logout_called_storage console_def logout_resumed_def logout_finally_storage)

text \<open>
  C8. A page holding a session asks \<^verbatim>\<open>/auth/me\<close> and is answered 401 with a body that
  is not JSON (the plain text \<^verbatim>\<open>Unauthorized\<close>). \<^verbatim>\<open>apiRequest\<close> throws the SyntaxError of
  \<^verbatim>\<open>response.json()\<close> before it looks at the status: the only request sent is the
  original, there is no refresh request and no retry. \<^verbatim>\<open>getCurrentUser\<close> returns
  \<^verbatim>\<open>null\<close> with the request of \<^verbatim>\<open>logout\<close> sent and the three keys still stored, so
  that \<^verbatim>\<open>isAuthenticated\<close> still holds; the keys are removed when the call of
  \<^verbatim>\<open>logout\<close> left in flight is resumed.
\<close>

theorem plain_401_is_not_refreshed:
  "fst (apiRequest gateway ''/auth/me'' no_options scenario_session) = Inl SyntaxError
   \<and> network (snd (apiRequest gateway ''/auth/me'' no_options scenario_session))
       = [\<lparr>url = ''http://localhost:3000/api/auth/me'', http_method = ''GET'',
            authorization = Some ''Bearer old'', body = None\<rparr>]
   \<and> fst (getCurrentUser gateway scenario_session) = None
   \<and> network (fst (snd (getCurrentUser gateway scenario_session)))
       = [\<lparr>url = ''http://localhost:3000/api/auth/me'', http_method = ''GET'',
            authorization = Some ''Bearer old'', body = None\<rparr>,
          \<lparr>url = ''http://localhost:3000/api/auth/logout'', http_method = ''POST'',
            authorization = Some ''Bearer old'', body = None\<rparr>]
   \<and> localStorage (fst (snd (getCurrentUser gateway scenario_session))) = localStorage scenario_session
   \<and> isAuthenticated (fst (snd (getCurrentUser gateway scenario_session)))
   \<and> snd (snd (getCurrentUser gateway scenario_session))
       = Some \<lparr>sent_token = Some ''old'',
               sent_config = \<lparr>url = ''http://localhost:3000/api/auth/logout'', http_method = ''POST'',
                                authorization = Some ''Bearer old'', body = None\<rparr>,
               reply = Response 401 ''Unauthorized'' None\<rparr>
   \<and> localStorage (logout_resumed gateway
         \<lparr>sent_token = Some ''old'',
          sent_config = \<lparr>url = ''http://localhost:3000/api/auth/logout'', http_method = ''POST'',
                           authorization = Some ''Bearer old'', body = None\<rparr>,
          reply = Response 401 ''Unauthorized'' None\<rparr>
         (fst (snd (getCurrentUser gateway scenario_session)))) = Map.empty"
proof -
  let ?me = "make_config ''/auth/me'' no_options (localStorage scenario_session ''accessToken'')"
  let ?a = "apiRequest gateway ''/auth/me'' no_options scenario_session"
  have me: "?me = \<lparr>url = ''http://localhost:3000/api/auth/me'', http_method = ''GET'',
            authorization = Some ''Bearer old'', body = None\<rparr>"
    by (simp add: make_config_def no_options_def scenario_session_def truthy_def API_BASE_URL_def)
  have "server gateway (network scenario_session) ?me = Response 401 ''Unauthorized'' None"
    by (simp add: gateway_def)
  note a = apiRequest_not_json [OF this]
  have a1: "fst ?a = Inl SyntaxError" by (simp add: a)
  have a2: "network (snd ?a) = [\<lparr>url = ''http://localhost:3000/api/auth/me'', http_method = ''GET'',
            authorization = Some ''Bearer old'', body = None\<rparr>]"
    by (simp add: a console_def me) (simp add: scenario_session_def)
  have a3: "localStorage (snd ?a) = localStorage scenario_session"
    by (simp add: a console_def)
  note g = getCurrentUser_fault [OF a1]
  have out: "make_config ''/auth/logout'' logout_options (localStorage scenario_session ''accessToken'')
      = \<lparr>url = ''http://localhost:3000/api/auth/logout'', http_method = ''POST'',
            authorization = Some ''Bearer old'', body = None\<rparr>"
    by (simp add: make_config_def logout_options_def scenario_session_def truthy_def API_BASE_URL_def)
  have g1: "fst (getCurrentUser gateway scenario_session) = None"
    by (simp add: g getCurrentUser_caught_def case_prod_beta)
  have g2: "network (fst (snd (getCurrentUser gateway scenario_session)))
       = [\<lparr>url = ''http://localhost:3000/api/auth/me'', http_method = ''GET'',
            authorization = Some ''Bearer old'', body = None\<rparr>,
          \<lparr>url = ''http://localhost:3000/api/auth/logout'', http_method = ''POST'',
            authorization = Some ''Bearer old'', body = None\<rparr>]"
    by (simp add: g getCurrentUser_caught_def case_prod_beta logout_called_def Let_def fetch_def
        console_def a2 a3 out)
  have g3: "localStorage (fst (snd (getCurrentUser gateway scenario_session))) = localStorage scenario_session"
    by (simp add: g getCurrentUser_caught_def case_prod_beta logout_called_storage console_def a3)
  have g4: "isAuthenticated (fst (snd (getCurrentUser gateway scenario_session)))"
    by (simp add: isAuthenticated_def g3) (simp add: scenario_session_def truthy_def)
  have g5: "snd (snd (getCurrentUser gateway scenario_session))
       = Some \<lparr>sent_token = Some ''old'',
               sent_config = \<lparr>url = ''http://localhost:3000/api/auth/logout'', http_method = ''POST'',
                                authorization = Some ''Bearer old'', body = None\<rparr>,
               reply = Response 401 ''Unauthorized'' None\<rparr>"
  proof -
    have "server gateway h r = Response 401 ''Unauthorized'' None" for h r
      by (simp add: gateway_def)
    moreover have "localStorage scenario_session ''accessToken'' = Some ''old''"
      by (simp add: scenario_session_def)
    moreover have "make_config ''/auth/logout'' logout_options (Some ''old'')
        = \<lparr>url = ''http://localhost:3000/api/auth/logout'', http_method = ''POST'',
            authorization = Some ''Bearer old'', body = None\<rparr>"
      by (simp add: make_config_def logout_options_def truthy_def API_BASE_URL_def)
    ultimately show ?thesis
      by (simp add: g getCurrentUser_caught_def case_prod_beta logout_called_def Let_def fetch_def
          console_def a3)
  qed
  have g6: "localStorage (logout_resumed gateway
         \<lparr>sent_token = Some ''old'',
          sent_config = \<lparr>url = ''http://localhost:3000/api/auth/logout'', http_method = ''POST'',
                           authorization = Some ''Bearer old'', body = None\<rparr>,
          reply = Response 401 ''Unauthorized'' None\<rparr>
         (fst (snd (getCurrentUser gateway scenario_session)))) = Map.empty"
    by (simp add: logout_resumed_def logout_finally_def apiRequest_settled_def Let_def console_def
        localStorage_removeItem_def g3)
       (simp add: scenario_session_def fun_eq_iff)
  from a1 a2 g1 g2 g3 g4 g5 g6 show ?thesis by (intro conjI)
qed

end
